theory Spec2Isabelle
  imports Complex_Main
begin

section \<open>Common values\<close>

text \<open>
  Python exceptions that the modelled functions can raise. A function that can raise
  returns \<open>py_error + 'a\<close>, with \<open>Inl\<close> for the exception.
\<close>

datatype py_error =
  ValueError | IndexError | AttributeError | TypeError | ZeroDivisionError | BackendError

section \<open>Query Processor: year resolution and smart range expansion\<close>

text \<open>
  \<open>QueryProcessor.process_query\<close> (query_processor.py, lines 39-168). The language-model
  extraction is an input of the model: \<open>process_and_augment_query\<close> either raises
  (\<open>Inl\<close>) or returns the parsed JSON object, of which the fields read by the company and
  year logic are kept. A JSON \<open>null\<close> or an absent key is \<open>None\<close>; a year range is the JSON
  array as a list. The metadata filters (document type, sector, ...) are copied to the
  result unchanged and the embedding is computed by an external service; both are left
  out of the result record.
\<close>

record llm_extraction =
  llm_companies :: "string list"
  llm_year :: "int option"
  llm_year_range :: "int list option"
  llm_augmented_query :: "string option"
  llm_needs_year_expansion :: "bool option"

record processed =
  pq_query_text :: string
  pq_company :: "string option"
  pq_companies :: "string list option"
  pq_year :: "int option"
  pq_year_range :: "int list option"

text \<open>Python truthiness of an optional string, an optional int and an optional list.\<close>

fun truthy_str :: "string option \<Rightarrow> bool" where
  "truthy_str None = False"
| "truthy_str (Some s) = (s \<noteq> [])"

fun truthy_int :: "int option \<Rightarrow> bool" where
  "truthy_int None = False"
| "truthy_int (Some n) = (n \<noteq> 0)"

fun truthy_list :: "'a list option \<Rightarrow> bool" where
  "truthy_list None = False"
| "truthy_list (Some xs) = (xs \<noteq> [])"

text \<open>\<open>xs[i]\<close> on a Python list, for a non-negative index: out of range raises.\<close>

definition py_index :: "'a list \<Rightarrow> nat \<Rightarrow> py_error + 'a" where
  "py_index xs i = (if i < length xs then Inr (xs ! i) else Inl IndexError)"

text \<open>
  Lines 91-109: the expansion of the resolved year or year range. The result is the
  pair (\<open>final_year\<close>, \<open>final_year_range\<close>) after the block.
\<close>

definition expand_years ::
  "bool option \<Rightarrow> int option \<Rightarrow> int list option \<Rightarrow> py_error + (int option \<times> int list option)" where
  "expand_years needs_year_expansion final_year final_year_range =
     (let should_expand = (needs_year_expansion = Some True) in
      if should_expand then
        (if truthy_list final_year_range then
           (case py_index (the final_year_range) 0 of
              Inl e \<Rightarrow> Inl e
            | Inr a \<Rightarrow>
               (case py_index (the final_year_range) 1 of
                  Inl e \<Rightarrow> Inl e
                | Inr b \<Rightarrow> Inr (final_year, Some [max 2015 (a - 1), min 2025 (b + 1)])))
         else if truthy_int final_year then
           Inr (None, Some [max 2015 (the final_year - 1), min 2025 (the final_year + 1)])
         else Inr (final_year, final_year_range))
      else Inr (final_year, final_year_range))"

text \<open>
  The whole of \<open>process_query\<close>: \<open>llm\<close> is the outcome of the extraction call, which is
  made only when \<open>expand\<close> is true. The returned \<open>year_range\<close> is
  \<open>tuple(final_year_range) if final_year_range else None\<close>.
\<close>

definition process_query ::
  "(py_error + llm_extraction) \<Rightarrow> string \<Rightarrow> string option \<Rightarrow> int option \<Rightarrow> bool
     \<Rightarrow> py_error + processed" where
  "process_query llm query company year expand =
     (if expand then
        (case llm of
           Inl e \<Rightarrow> Inl e
         | Inr llm_result \<Rightarrow>
            (let extracted_companies = llm_companies llm_result;
                 final_company =
                   (if truthy_str company then company
                    else if extracted_companies \<noteq> [] then Some (hd extracted_companies)
                    else None);
                 final_companies =
                   (if length extracted_companies > 1 then Some extracted_companies else None);
                 final_year = (if truthy_int year then year else llm_year llm_result)
             in case expand_years (llm_needs_year_expansion llm_result) final_year
                       (llm_year_range llm_result) of
                  Inl e \<Rightarrow> Inl e
                | Inr (y, r) \<Rightarrow>
                    Inr \<lparr> pq_query_text =
                            (case llm_augmented_query llm_result of None \<Rightarrow> query | Some q \<Rightarrow> q),
                          pq_company = final_company,
                          pq_companies = final_companies,
                          pq_year = y,
                          pq_year_range = (if truthy_list r then r else None) \<rparr>))
      else
        Inr \<lparr> pq_query_text = query, pq_company = company, pq_companies = None,
              pq_year = year, pq_year_range = None \<rparr>)"


section \<open>Keyword Scorer\<close>

text \<open>
  \<open>KeywordSearcher\<close> (keyword_search.py). A Python \<open>str\<close> is modelled as a \<open>string\<close> of
  ASCII characters and a Python \<open>float\<close> as a real number. The word sets of
  \<open>__init__\<close> are lists, used for membership only; the order in which Python iterates over
  the set \<open>financial_phrases\<close> is not fixed by the language, so the two functions that
  iterate over it take that order as the argument \<open>ps\<close>.
\<close>

definition stop_words :: "string list" where
  "stop_words =
    [''the'', ''a'', ''an'', ''and'', ''or'', ''but'', ''in'', ''on'', ''at'', ''to'', ''for'',
     ''of'', ''with'', ''by'', ''from'', ''as'', ''is'', ''was'', ''are'', ''were'', ''be'',
     ''been'', ''being'', ''have'', ''has'', ''had'', ''do'', ''does'', ''did'', ''will'',
     ''would'', ''should'', ''could'', ''may'', ''might'', ''must'', ''can'', ''this'',
     ''that'', ''these'', ''those'', ''it'', ''its'', ''they'', ''them'', ''their'',
     ''we'', ''our'', ''us'', ''you'', ''your'', ''he'', ''she'', ''his'', ''her'']"

definition financial_phrases :: "string list" where
  "financial_phrases =
    [''operating income'', ''net income'', ''gross profit'', ''revenue growth'',
     ''cash flow'', ''operating cash flow'', ''free cash flow'', ''cash flow from operations'',
     ''total revenue'', ''net revenue'', ''gross revenue'', ''revenue recognition'',
     ''earnings per share'', ''diluted eps'', ''basic eps'',
     ''return on equity'', ''return on assets'', ''return on investment'',
     ''ebitda'', ''adjusted ebitda'', ''non-gaap'',
     ''cost of revenue'', ''cost of goods sold'', ''operating expenses'',
     ''research and development'', ''sales and marketing'', ''general and administrative'',
     ''total assets'', ''total liabilities'', ''shareholders equity'', ''stockholders equity'',
     ''working capital'', ''current assets'', ''current liabilities'',
     ''debt to equity'', ''debt ratio'', ''leverage ratio'',
     ''year over year'', ''quarter over quarter'', ''sequential growth'',
     ''fiscal year'', ''annual report'', ''quarterly report'',
     ''amazon web services'', ''aws'', ''azure'', ''google cloud'',
     ''segment revenue'', ''geographic revenue'', ''product revenue'', ''service revenue'']"

definition financial_abbreviations :: "string list" where
  "financial_abbreviations =
    [''gaap'', ''ifrs'', ''eps'', ''ebitda'', ''roi'', ''roe'', ''roa'', ''pe'', ''p/e'',
     ''aws'', ''azure'', ''gcp'', ''ai'', ''ml'', ''iot'', ''saas'', ''paas'', ''iaas'']"

text \<open>\<open>COMPANIES\<close> of config/constants.py.\<close>

definition company_names :: "string list" where
  "company_names =
    [''apple'', ''microsoft'', ''amazon'', ''alphabet'', ''meta'', ''nvidia'', ''tesla'']"

definition financial_metrics :: "string list" where
  "financial_metrics =
    [''revenue'', ''income'', ''profit'', ''loss'', ''earnings'', ''expenses'', ''costs'',
     ''assets'', ''liabilities'', ''equity'', ''debt'', ''cash'', ''capital'',
     ''margin'', ''ratio'', ''growth'', ''decline'', ''increase'', ''decrease'',
     ''million'', ''billion'', ''trillion'', ''percent'', ''percentage'']"

subsection \<open>String primitives\<close>

definition code_of :: "char \<Rightarrow> nat" where
  "code_of c = of_char c"

definition is_upper :: "char \<Rightarrow> bool" where
  "is_upper c = (65 \<le> code_of c \<and> code_of c \<le> 90)"

definition is_digit :: "char \<Rightarrow> bool" where
  "is_digit c = (48 \<le> code_of c \<and> code_of c \<le> 57)"

definition is_word :: "char \<Rightarrow> bool" where
  \<comment> \<open>the regular-expression class \<open>\w\<close> on ASCII\<close>
  "is_word c = (is_upper c \<or> (97 \<le> code_of c \<and> code_of c \<le> 122) \<or> is_digit c
                 \<or> c = CHR ''_'')"

definition is_space :: "char \<Rightarrow> bool" where
  \<comment> \<open>the class \<open>\s\<close>, and the separators of \<open>str.split()\<close>, on ASCII\<close>
  "is_space c = ((9 \<le> code_of c \<and> code_of c \<le> 13) \<or> (28 \<le> code_of c \<and> code_of c \<le> 32))"

definition lower_char :: "char \<Rightarrow> char" where
  "lower_char c = (if is_upper c then char_of (code_of c + 32) else c)"

definition lower :: "string \<Rightarrow> string" where
  "lower s = map lower_char s"

fun starts_with :: "string \<Rightarrow> string \<Rightarrow> bool" where
  "starts_with s [] = True"
| "starts_with [] (p # ps) = False"
| "starts_with (c # cs) (p # ps) = (c = p \<and> starts_with cs ps)"

text \<open>\<open>p in s\<close> for strings: \<open>p\<close> occurs in \<open>s\<close> as a contiguous substring.\<close>

fun str_in :: "string \<Rightarrow> string \<Rightarrow> bool" where
  "str_in p [] = (p = [])"
| "str_in p (c # cs) = (starts_with (c # cs) p \<or> str_in p cs)"

text \<open>
  \<open>s.replace(old, new)\<close> for a non-empty \<open>old\<close>: the occurrences are replaced from left to
  right without overlap. The counter is the number of characters of the occurrence just
  replaced that are still to be skipped.
\<close>

fun replace_from :: "string \<Rightarrow> string \<Rightarrow> nat \<Rightarrow> string \<Rightarrow> string" where
  "replace_from old new k [] = []"
| "replace_from old new (Suc k) (c # cs) = replace_from old new k cs"
| "replace_from old new 0 (c # cs) =
     (if starts_with (c # cs) old then new @ replace_from old new (length old - 1) cs
      else c # replace_from old new 0 cs)"

definition replace :: "string \<Rightarrow> string \<Rightarrow> string \<Rightarrow> string" where
  "replace s old new =
     (if old = [] then new @ concat (map (\<lambda>c. c # new) s) else replace_from old new 0 s)"

text \<open>\<open>s.split()\<close>: the maximal runs of non-whitespace characters.\<close>

fun split_from :: "string \<Rightarrow> string \<Rightarrow> string list" where
  "split_from cur [] = (if cur = [] then [] else [cur])"
| "split_from cur (c # cs) =
     (if is_space c then (if cur = [] then split_from [] cs else cur # split_from [] cs)
      else split_from (cur @ [c]) cs)"

definition split :: "string \<Rightarrow> string list" where
  "split s = split_from [] s"

text \<open>\<open>' '.join(xs)\<close>.\<close>

fun join_space :: "string list \<Rightarrow> string" where
  "join_space [] = []"
| "join_space [x] = x"
| "join_space (x # y # ys) = x @ '' '' @ join_space (y # ys)"

subsection \<open>Tokenization and phrases\<close>

text \<open>\<open>re.sub(r'[^\w\s$%\._]', ' ', s)\<close>.\<close>

definition strip_special :: "string \<Rightarrow> string" where
  "strip_special s =
     map (\<lambda>c. if is_word c \<or> is_space c \<or> c = CHR ''$'' \<or> c = CHR ''%'' \<or> c = CHR ''.''
              then c else CHR '' '') s"

definition protect_phrases :: "string list \<Rightarrow> string \<Rightarrow> string" where
  "protect_phrases ps text_lower =
     fold (\<lambda>phrase protected_text.
             replace protected_text phrase (replace phrase '' '' ''_'')) ps text_lower"

definition flatten_token :: "string \<Rightarrow> string list" where
  "flatten_token token =
     (if CHR '' '' \<in> set token then replace token '' '' ''_'' # split token else [token])"

definition tokenize :: "string list \<Rightarrow> string \<Rightarrow> string list" where
  "tokenize ps text =
     (let text_lower = lower text;
          protected_text = strip_special (protect_phrases ps text_lower);
          tokens = split protected_text;
          filtered_tokens =
            map (\<lambda>t. replace t ''_'' '' '')
              (filter (\<lambda>t. t \<noteq> [] \<and> (t \<notin> set stop_words \<or> t \<in> set financial_metrics)) tokens)
      in concat (map flatten_token filtered_tokens))"

text \<open>
  The loop of \<open>extract_phrases\<close> over the windows of one length: \<open>i\<close> runs over
  \<open>range(len(clean_tokens) - length + 1)\<close>, which is empty when the bound is not positive.
\<close>

fun add_windows :: "string list \<Rightarrow> nat \<Rightarrow> nat list \<Rightarrow> string list \<Rightarrow> string list" where
  "add_windows clean_tokens len [] phrases = phrases"
| "add_windows clean_tokens len (i # is) phrases =
     (let phrase = join_space (take len (drop i clean_tokens))
      in add_windows clean_tokens len is
           (if phrase \<notin> set phrases then phrases @ [phrase] else phrases))"

definition window_range :: "string list \<Rightarrow> nat \<Rightarrow> nat list" where
  "window_range clean_tokens len = [0 ..< (length clean_tokens + 1) - len]"

definition extract_phrases :: "string list \<Rightarrow> string \<Rightarrow> nat \<Rightarrow> nat \<Rightarrow> string list" where
  "extract_phrases ps text min_length max_length =
     (let text_lower = lower text;
          phrases = filter (\<lambda>phrase. str_in phrase text_lower) ps;
          tokens = tokenize ps text;
          clean_tokens =
            map (\<lambda>t. replace t ''_'' '' '')
              (filter (\<lambda>t. CHR ''_'' \<notin> set t \<or> replace t ''_'' '' '' \<in> set financial_phrases)
                 tokens)
      in fold (\<lambda>len acc. add_windows clean_tokens len (window_range clean_tokens len) acc)
           [min_length ..< max_length + 1] phrases)"

subsection \<open>BM25 and the relevance score\<close>

text \<open>\<open>re.match(r'^\d{4}$', s)\<close>: four digits (tokens hold no line break).\<close>

definition is_year_token :: "string \<Rightarrow> bool" where
  "is_year_token s = (length s = 4 \<and> list_all is_digit s)"

definition term_boost :: "string \<Rightarrow> real" where
  "term_boost term =
     (let clean_term = replace term ''_'' '' '' in
      if clean_term \<in> set financial_phrases then 2.0
      else if clean_term \<in> set financial_metrics then 1.5
      else if clean_term \<in> set company_names then 1.8
      else if clean_term \<in> set financial_abbreviations then 1.5
      else if is_year_token clean_term then 1.3
      else 1.0)"

text \<open>
  \<open>calculate_bm25_score\<close> as \<open>calculate_keyword_relevance\<close> calls it: \<open>document_freq\<close> and
  \<open>total_documents\<close> are left at \<open>None\<close>, so the inverse document frequency of every
  term is the fallback \<open>math.log(10.0)\<close> of line 226, and \<open>avg_doc_length\<close>, \<open>k1\<close>, \<open>b\<close>
  are the defaults 100, 1.5 and 0.75. The sum runs over the distinct query terms that
  occur in the document.
\<close>

definition bm25_term :: "string list \<Rightarrow> real \<Rightarrow> real \<Rightarrow> real \<Rightarrow> string \<Rightarrow> real" where
  "bm25_term document_tokens avg_doc_length k1 b term =
     (let doc_length = real (length document_tokens);
          tf = real (count_list document_tokens term);
          idf = ln 10;
          numerator = idf * tf * (k1 + 1) * term_boost term;
          denominator = tf + k1 * (1 - b + b * (doc_length / avg_doc_length))
      in numerator / denominator)"

definition calculate_bm25_score :: "string list \<Rightarrow> string list \<Rightarrow> real" where
  "calculate_bm25_score query_tokens document_tokens =
     (if query_tokens = [] \<or> document_tokens = [] then 0
      else sum_list (map (bm25_term document_tokens 100 1.5 0.75)
             (filter (\<lambda>term. term \<in> set document_tokens) (remdups query_tokens))))"

definition phrase_bonus_of :: "string \<Rightarrow> string \<Rightarrow> real" where
  "phrase_bonus_of content_lower phrase =
     (if str_in phrase content_lower then
        (if phrase \<in> set financial_phrases then 0.3 else real (length (split phrase)) * 0.1)
      else 0)"

definition calculate_keyword_relevance :: "string list \<Rightarrow> string \<Rightarrow> string \<Rightarrow> bool \<Rightarrow> real" where
  "calculate_keyword_relevance ps query content use_phrases =
     (let query_tokens = tokenize ps query;
          content_tokens = tokenize ps content
      in if query_tokens = [] then 0
         else
           (let bm25_score = calculate_bm25_score query_tokens content_tokens;
                normalized_score = 1 / (1 + exp (- bm25_score / 10));
                phrase_bonus =
                  (if use_phrases then
                     sum_list (map (phrase_bonus_of (lower content)) (extract_phrases ps query 2 3))
                   else 0)
            in min 1 (normalized_score + phrase_bonus)))"

section \<open>Retrieval Engine\<close>

subsection \<open>Chunks\<close>

text \<open>
  The result dictionary that \<open>QdrantClient.search\<close> builds from a scored point
  (qdrant_client.py, lines 175-197) and that the later passes update in place. The payload
  fields \<open>content\<close> and \<open>company\<close> are read with \<open>payload.get\<close>, so each may be \<open>None\<close>. The
  score keys that are added later (\<open>semantic_score\<close>, \<open>keyword_score\<close>, \<open>normalized_score\<close>,
  \<open>rerank_score\<close>, \<open>keyword_rerank_score\<close>) are \<open>None\<close> as long as they are absent. The other
  metadata are not read by the functions below.

  The model passes chunks by value. In the source the lists hold references to
  dictionaries that are updated in place; both agree as long as no dictionary occurs
  twice in one list, which is the case when the lower-cased target companies are
  pairwise distinct.
\<close>

record chunk =
  ch_id :: string
  ch_content :: "string option"
  ch_score :: real
  ch_company :: "string option"
  ch_semantic_score :: "real option"
  ch_keyword_score :: "real option"
  ch_normalized_score :: "real option"
  ch_rerank_score :: "real option"
  ch_keyword_rerank_score :: "real option"

text \<open>
  \<open>xs.sort(key=..., reverse=True)\<close> and \<open>sorted(xs, key=..., reverse=True)\<close>: descending
  by key, and stable (elements with equal keys keep their order).
\<close>

fun insert_desc :: "('a \<Rightarrow> real) \<Rightarrow> 'a \<Rightarrow> 'a list \<Rightarrow> 'a list" where
  "insert_desc key x [] = [x]"
| "insert_desc key x (y # ys) =
     (if key y \<le> key x then x # y # ys else y # insert_desc key x ys)"

definition sort_desc :: "('a \<Rightarrow> real) \<Rightarrow> 'a list \<Rightarrow> 'a list" where
  "sort_desc key xs = foldr (insert_desc key) xs []"

text \<open>
  The comprehension \<open>[r for r in results if r['metadata'].get('company', '').lower() == company]\<close>:
  a chunk whose company is \<open>None\<close> raises \<open>AttributeError\<close>.
\<close>

fun filter_company :: "string \<Rightarrow> chunk list \<Rightarrow> py_error + chunk list" where
  "filter_company company [] = Inr []"
| "filter_company company (r # rs) =
     (case ch_company r of
        None \<Rightarrow> Inl AttributeError
      | Some c \<Rightarrow>
         (case filter_company company rs of
            Inl e \<Rightarrow> Inl e
          | Inr out \<Rightarrow> Inr (if lower c = company then r # out else out)))"

text \<open>
  A Python dictionary with insertion order: assigning to a key that is present keeps its
  position.
\<close>

fun dict_set :: "'k \<Rightarrow> 'v \<Rightarrow> ('k \<times> 'v) list \<Rightarrow> ('k \<times> 'v) list" where
  "dict_set k v [] = [(k, v)]"
| "dict_set k v ((k', v') # d) = (if k = k' then (k, v) # d else (k', v') # dict_set k v d)"

text \<open>
  \<open>d[k]\<close> for a dictionary of lists. It is only applied to the keys that were stored
  before, so the \<open>KeyError\<close> of an absent key cannot occur.
\<close>

definition dict_get :: "('k \<times> 'v list) list \<Rightarrow> 'k \<Rightarrow> 'v list" where
  "dict_get d k = (case map_of d k of None \<Rightarrow> [] | Some v \<Rightarrow> v)"

text \<open>
  The grouping loop shared by \<open>_normalize_scores_per_company\<close> (lines 575-579) and
  \<open>_balance_results\<close> (lines 626-633); \<open>post\<close> is the sort that only the latter applies.
\<close>

fun group_by_company ::
  "(chunk list \<Rightarrow> chunk list) \<Rightarrow> chunk list \<Rightarrow> string list \<Rightarrow> (string \<times> chunk list) list
     \<Rightarrow> py_error + (string \<times> chunk list) list" where
  "group_by_company post results [] results_by_company = Inr results_by_company"
| "group_by_company post results (company # cs) results_by_company =
     (case filter_company company results of
        Inl e \<Rightarrow> Inl e
      | Inr rs \<Rightarrow> group_by_company post results cs (dict_set company (post rs) results_by_company))"

subsection \<open>Per-company normalization\<close>

definition normalize_company :: "chunk list \<Rightarrow> chunk list" where
  "normalize_company company_results =
     (let scores = map ch_score company_results;
          mean_score = sum_list scores / real (length scores);
          std_score = sqrt (sum_list (map (\<lambda>s. (s - mean_score)\<^sup>2) scores) / real (length scores))
      in if std_score > 0 then
           map (\<lambda>result.
                  result\<lparr> ch_normalized_score := Some ((ch_score result - mean_score) / std_score),
                          ch_score := (ch_score result - mean_score) / std_score \<rparr>)
               company_results
         else map (\<lambda>result. result\<lparr> ch_score := 0 \<rparr>) company_results)"

definition normalize_scores_per_company ::
  "chunk list \<Rightarrow> string list \<Rightarrow> py_error + chunk list" where
  "normalize_scores_per_company results target_companies =
     (let target_companies_lower = map lower target_companies in
      case group_by_company (\<lambda>rs. rs) results target_companies_lower [] of
        Inl e \<Rightarrow> Inl e
      | Inr results_by_company \<Rightarrow>
          Inr (concat (map (\<lambda>(company, company_results).
                              if company_results = [] then []
                              else normalize_company company_results)
                        results_by_company)))"

subsection \<open>Balanced interleaving\<close>

text \<open>The variables that the nested iteration of \<open>_balance_results\<close> updates (lines 645-678).\<close>

record balance_state =
  balanced_results :: "chunk list"
  taken_count :: "string \<Rightarrow> nat"
  remainder :: nat

text \<open>The inner loop over the companies for one \<open>round_idx\<close>; it stops at the \<open>break\<close>.\<close>

fun balance_round ::
  "(string \<times> chunk list) list \<Rightarrow> nat \<Rightarrow> nat \<Rightarrow> nat \<Rightarrow> string list \<Rightarrow> balance_state
     \<Rightarrow> balance_state" where
  "balance_round results_by_company top_k per_company_k round_idx [] st = st"
| "balance_round results_by_company top_k per_company_k round_idx (company # cs) st =
     (if length (balanced_results st) \<ge> top_k then st
      else balance_round results_by_company top_k per_company_k round_idx cs
        (if round_idx < length (dict_get results_by_company company) then
           (if taken_count st company < per_company_k then
              st\<lparr> balanced_results :=
                     balanced_results st @ [dict_get results_by_company company ! round_idx],
                   taken_count := (taken_count st)(company := taken_count st company + 1) \<rparr>
            else if remainder st > 0 \<and> taken_count st company = per_company_k then
              st\<lparr> balanced_results :=
                     balanced_results st @ [dict_get results_by_company company ! round_idx],
                   taken_count := (taken_count st)(company := taken_count st company + 1),
                   remainder := remainder st - 1 \<rparr>
            else st)
         else st))"

text \<open>The outer loop over \<open>range(max_available)\<close>, with its \<open>break\<close> after a round.\<close>

fun balance_rounds ::
  "(string \<times> chunk list) list \<Rightarrow> nat \<Rightarrow> nat \<Rightarrow> string list \<Rightarrow> nat list \<Rightarrow> balance_state
     \<Rightarrow> balance_state" where
  "balance_rounds results_by_company top_k per_company_k companies [] st = st"
| "balance_rounds results_by_company top_k per_company_k companies (round_idx # rounds) st =
     (let st' = balance_round results_by_company top_k per_company_k round_idx companies st
      in if length (balanced_results st') \<ge> top_k then st'
         else balance_rounds results_by_company top_k per_company_k companies rounds st')"

text \<open>
  \<open>_balance_results\<close> (lines 609-682). \<open>top_k\<close> is a count. With an empty company list
  the division of line 646 raises; the callers pass at least two companies.
\<close>

definition balance_results :: "chunk list \<Rightarrow> string list \<Rightarrow> nat \<Rightarrow> py_error + chunk list" where
  "balance_results results target_companies top_k =
     (let target_companies_lower = map lower target_companies in
      case group_by_company (sort_desc ch_score) results target_companies_lower [] of
        Inl e \<Rightarrow> Inl e
      | Inr results_by_company \<Rightarrow>
          if target_companies_lower = [] then Inl ZeroDivisionError
          else
            (let per_company_k = max 1 (top_k div length target_companies_lower);
                 remainder0 = top_k mod length target_companies_lower;
                 max_available =
                   foldr max (map (\<lambda>c. length (dict_get results_by_company c))
                                target_companies_lower) 0;
                 st = balance_rounds results_by_company top_k per_company_k
                        target_companies_lower [0 ..< max_available]
                        \<lparr> balanced_results = [], taken_count = (\<lambda>company. 0),
                          remainder = remainder0 \<rparr>
             in Inr (take top_k (balanced_results st))))"

subsection \<open>Semantic search, hybrid search and retrieval\<close>

text \<open>
  The vector index is external. \<open>client\<close> stands for \<open>self.client.search\<close> with the query
  vector and the server-side metadata filter fixed: given the \<open>user_id\<close> of the filter and
  the \<open>limit\<close> it returns the scored points, already converted to chunks, or raises. Every
  call is recorded in a trace of calls, so that a theorem can say that no search was executed.
  The year and metadata filters only reach the server-side filter and are not modelled.
  \<open>top_k\<close> is a count.
\<close>

type_synonym backend = "string \<Rightarrow> nat \<Rightarrow> py_error + chunk list"

type_synonym calls = "(string \<times> nat) list"

text \<open>The dictionary of lines 175-197 for one scored point: no later score key yet.\<close>

definition new_chunk :: "string \<Rightarrow> string option \<Rightarrow> real \<Rightarrow> string option \<Rightarrow> chunk" where
  "new_chunk chunk_id content score company =
     \<lparr> ch_id = chunk_id, ch_content = content, ch_score = score, ch_company = company,
       ch_semantic_score = None, ch_keyword_score = None, ch_normalized_score = None,
       ch_rerank_score = None, ch_keyword_rerank_score = None \<rparr>"

text \<open>A loop or comprehension whose body can raise: the first exception ends it.\<close>

fun map_err :: "('a \<Rightarrow> py_error + 'b) \<Rightarrow> 'a list \<Rightarrow> py_error + 'b list" where
  "map_err f [] = Inr []"
| "map_err f (x # xs) =
     (case f x of
        Inl e \<Rightarrow> Inl e
      | Inr y \<Rightarrow> (case map_err f xs of Inl e \<Rightarrow> Inl e | Inr ys \<Rightarrow> Inr (y # ys)))"

text \<open>Lines 154-160 and 293-299: the lower-cased companies used for balancing.\<close>

definition target_companies_of :: "string option \<Rightarrow> string list option \<Rightarrow> string list" where
  "target_companies_of company companies =
     (if truthy_list companies then map lower (the companies)
      else if truthy_str company then [lower (the company)]
      else [])"

text \<open>Lines 208-214: the client-side filter for a company list.\<close>

fun filter_companies :: "string list \<Rightarrow> chunk list \<Rightarrow> py_error + chunk list" where
  "filter_companies target_companies_lower [] = Inr []"
| "filter_companies target_companies_lower (r # rs) =
     (case ch_company r of
        None \<Rightarrow> Inl AttributeError
      | Some c \<Rightarrow>
         (case filter_companies target_companies_lower rs of
            Inl e \<Rightarrow> Inl e
          | Inr out \<Rightarrow> Inr (if lower c \<in> set target_companies_lower then r # out else out)))"

text \<open>
  \<open>QdrantClient.search\<close> (lines 64-229). The guard on \<open>user_id\<close> is outside the \<open>try\<close>; every
  exception raised after the call of the index is caught and turned into an empty list.
\<close>

definition search ::
  "backend \<Rightarrow> string option \<Rightarrow> nat \<Rightarrow> string option \<Rightarrow> string list option \<Rightarrow> calls
     \<Rightarrow> (py_error + chunk list) \<times> calls" where
  "search client user_id top_k company companies trace =
     (if \<not> truthy_str user_id then (Inl ValueError, trace)
      else
        (let target_companies = target_companies_of company companies;
             limit = (if length target_companies > 1 then top_k * 3 else top_k);
             trace' = trace @ [(the user_id, limit)];
             outcome =
               (case client (the user_id) limit of
                  Inl e \<Rightarrow> Inl e
                | Inr search_results \<Rightarrow>
                   (case (if truthy_list companies
                          then filter_companies (map lower (the companies)) search_results
                          else Inr search_results) of
                      Inl e \<Rightarrow> Inl e
                    | Inr results \<Rightarrow>
                        if length target_companies > 1 then
                          (case normalize_scores_per_company results target_companies of
                             Inl e \<Rightarrow> Inl e
                           | Inr normalized \<Rightarrow> balance_results normalized target_companies top_k)
                        else Inr (take top_k (sort_desc ch_score results))))
         in (case outcome of Inl e \<Rightarrow> (Inr [], trace') | Inr results \<Rightarrow> (Inr results, trace'))))"

text \<open>
  Lines 344-346 and retriever.py lines 282-283:
  \<open>max(0.0, min(1.0, (s + 1) / 2)) if s < 0 else s\<close>.
\<close>

definition normalize_semantic :: "real \<Rightarrow> real" where
  "normalize_semantic semantic_score =
     (if semantic_score < 0 then max 0 (min 1 ((semantic_score + 1) / 2)) else semantic_score)"

text \<open>
  The body of the scoring loop of \<open>hybrid_search\<close> (lines 333-357). A \<open>None\<close> content makes
  \<open>tokenize\<close> raise \<open>AttributeError\<close> inside \<open>calculate_keyword_relevance\<close>.
\<close>

definition score_chunk :: "string list \<Rightarrow> real \<Rightarrow> string \<Rightarrow> chunk \<Rightarrow> py_error + chunk" where
  "score_chunk ps alpha query_text chunk =
     (case ch_content chunk of
        None \<Rightarrow> Inl AttributeError
      | Some content \<Rightarrow>
         (let semantic_score = ch_score chunk;
              keyword_score = calculate_keyword_relevance ps query_text content True;
              normalized_semantic = normalize_semantic semantic_score;
              combined_score = alpha * normalized_semantic + (1 - alpha) * keyword_score
          in Inr (chunk\<lparr> ch_score := combined_score,
                          ch_semantic_score := Some normalized_semantic,
                          ch_keyword_score := Some keyword_score \<rparr>)))"

text \<open>\<open>QdrantClient.hybrid_search\<close> (lines 231-368).\<close>

definition hybrid_search ::
  "string list \<Rightarrow> backend \<Rightarrow> string \<Rightarrow> string option \<Rightarrow> nat \<Rightarrow> real \<Rightarrow> string option
     \<Rightarrow> string list option \<Rightarrow> calls \<Rightarrow> (py_error + chunk list) \<times> calls" where
  "hybrid_search ps client query_text user_id top_k alpha company companies trace =
     (if \<not> truthy_str user_id then (Inl ValueError, trace)
      else
        (let target_companies = target_companies_of company companies in
         case search client user_id
                (if length target_companies > 1 then top_k * 3 else top_k) company companies trace of
           (Inl e, trace') \<Rightarrow> (Inl e, trace')
         | (Inr semantic_results, trace') \<Rightarrow>
             if query_text = [] then (Inr (take top_k semantic_results), trace')
             else
               (case map_err (score_chunk ps alpha query_text) semantic_results of
                  Inl e \<Rightarrow> (Inl e, trace')
                | Inr scored_results \<Rightarrow>
                    if length target_companies > 1 then
                      (case normalize_scores_per_company scored_results target_companies of
                         Inl e \<Rightarrow> (Inl e, trace')
                       | Inr normalized \<Rightarrow>
                           (balance_results normalized target_companies top_k, trace'))
                    else (Inr (take top_k (sort_desc ch_score scored_results)), trace'))))"

text \<open>The body of the loop of \<open>Retriever._rerank_with_keywords\<close> (retriever.py, lines 270-292).\<close>

definition rerank_chunk :: "string list \<Rightarrow> string \<Rightarrow> chunk \<Rightarrow> py_error + chunk" where
  "rerank_chunk ps query_text result =
     (case ch_content result of
        None \<Rightarrow> Inl AttributeError
      | Some content \<Rightarrow>
         (let semantic_score = ch_score result;
              keyword_score = calculate_keyword_relevance ps query_text content True;
              normalized_semantic = normalize_semantic semantic_score;
              rerank_score = 0.6 * normalized_semantic + 0.4 * keyword_score
          in Inr (result\<lparr> ch_rerank_score := Some rerank_score,
                           ch_keyword_rerank_score := Some keyword_score \<rparr>)))"

text \<open>The sort key \<open>x['rerank_score']\<close>; the loop has set it on every result.\<close>

definition rerank_key :: "chunk \<Rightarrow> real" where
  "rerank_key x = (case ch_rerank_score x of None \<Rightarrow> 0 | Some v \<Rightarrow> v)"

definition rerank_with_keywords :: "string list \<Rightarrow> chunk list \<Rightarrow> string \<Rightarrow> py_error + chunk list" where
  "rerank_with_keywords ps results query_text =
     (case map_err (rerank_chunk ps query_text) results of
        Inl e \<Rightarrow> Inl e
      | Inr scored \<Rightarrow> Inr (sort_desc rerank_key scored))"

text \<open>
  \<open>Retriever._rerank\<close> (lines 225-239) for a retriever without cross-encoder, which is what
  \<open>get_retriever()\<close> builds.
\<close>

definition rerank :: "string list \<Rightarrow> chunk list \<Rightarrow> string \<Rightarrow> py_error + chunk list" where
  "rerank ps results query_text =
     (if results = [] then Inr results else rerank_with_keywords ps results query_text)"

record settings =
  TOP_K_INITIAL :: nat
  TOP_K_FINAL :: nat
  HYBRID_SEARCH_ALPHA :: real

definition default_settings :: settings where
  "default_settings = \<lparr> TOP_K_INITIAL = 30, TOP_K_FINAL = 8, HYBRID_SEARCH_ALPHA = 0.7 \<rparr>"

text \<open>
  \<open>Retriever.retrieve\<close> (lines 40-223). \<open>llm\<close> is the outcome of the extraction call made
  by \<open>process_query\<close>. The company filter is a list (lines 117-121) or a single company
  (line 124).
\<close>

definition retrieve ::
  "string list \<Rightarrow> settings \<Rightarrow> backend \<Rightarrow> (py_error + llm_extraction) \<Rightarrow> string \<Rightarrow> string option
     \<Rightarrow> nat option \<Rightarrow> string option \<Rightarrow> string list option \<Rightarrow> int option \<Rightarrow> bool \<Rightarrow> bool \<Rightarrow> calls
     \<Rightarrow> (py_error + chunk list) \<times> calls" where
  "retrieve ps cfg client llm query user_id top_k company companies year use_hybrid expand_query trace =
     (if \<not> truthy_str user_id then (Inl ValueError, trace)
      else
        (let top_k' = (case top_k of None \<Rightarrow> TOP_K_FINAL cfg | Some k \<Rightarrow> k) in
         case process_query llm query company year expand_query of
           Inl e \<Rightarrow> (Inl e, trace)
         | Inr processed \<Rightarrow>
            (let list_filter =
                   (if truthy_list companies then companies
                    else if truthy_list (pq_companies processed)
                            \<and> length (the (pq_companies processed)) > 1
                         then pq_companies processed
                    else None);
                 str_filter = (if list_filter = None then pq_company processed else None)
             in case (if use_hybrid
                      then hybrid_search ps client (pq_query_text processed) user_id
                             (TOP_K_INITIAL cfg) (HYBRID_SEARCH_ALPHA cfg) str_filter list_filter trace
                      else search client user_id (TOP_K_INITIAL cfg) str_filter list_filter trace) of
                  (Inl e, trace') \<Rightarrow> (Inl e, trace')
                | (Inr results, trace') \<Rightarrow>
                    (case rerank ps results (pq_query_text processed) of
                       Inl e \<Rightarrow> (Inl e, trace')
                     | Inr reranked \<Rightarrow> (Inr (take top_k' reranked), trace')))))"

subsection \<open>Pooling of decomposed sub-queries\<close>

definition CONTENT_HASH_LENGTH :: nat where
  "CONTENT_HASH_LENGTH = 200"

text \<open>
  \<open>_deduplicate_chunks\<close> (agent1_retrieval/nodes.py, lines 445-454). Python's built-in
  \<open>hash\<close> on strings is the parameter \<open>h\<close>; \<open>seen\<close> is the set \<open>seen_content\<close>. Slicing a
  \<open>None\<close> content raises \<open>TypeError\<close>.
\<close>

fun deduplicate_from :: "(string \<Rightarrow> int) \<Rightarrow> int set \<Rightarrow> chunk list \<Rightarrow> py_error + chunk list" where
  "deduplicate_from h seen [] = Inr []"
| "deduplicate_from h seen (chunk # chunks) =
     (case ch_content chunk of
        None \<Rightarrow> Inl TypeError
      | Some content \<Rightarrow>
         (let content_hash = h (take CONTENT_HASH_LENGTH content) in
          if content_hash \<notin> seen then
            (case deduplicate_from h (insert content_hash seen) chunks of
               Inl e \<Rightarrow> Inl e
             | Inr unique_chunks \<Rightarrow> Inr (chunk # unique_chunks))
          else deduplicate_from h seen chunks))"

definition deduplicate_chunks :: "(string \<Rightarrow> int) \<Rightarrow> chunk list \<Rightarrow> py_error + chunk list" where
  "deduplicate_chunks h chunks = deduplicate_from h {} chunks"

text \<open>
  The pooling step of \<open>_retrieve_decomposed_query\<close> (lines 495-496): the chunks of all
  sub-queries, in the order in which the parallel retrievals completed, are deduplicated
  and sorted by descending score.
\<close>

definition pool_chunks :: "(string \<Rightarrow> int) \<Rightarrow> chunk list \<Rightarrow> py_error + chunk list" where
  "pool_chunks h all_chunks_dict =
     (case deduplicate_chunks h all_chunks_dict of
        Inl e \<Rightarrow> Inl e
      | Inr unique \<Rightarrow> Inr (sort_desc ch_score unique))"

section \<open>Agent Orchestrator: retrieval stage\<close>

text \<open>
  The nodes of the retrieval subgraph (agent1_retrieval/nodes.py and subgraph.py) read
  the workflow state and return a dictionary of the keys they change. Every graph is built
  as \<open>StateGraph(AgentState)\<close>, so the state that is carried from one node to the next
  has the keys that \<open>AgentState\<close> declares (state.py, lines 107-146) and no other: an entry
  of a returned dictionary under an undeclared key is not stored. The record
  \<open>agent_state\<close> holds the declared keys that the validation cycle reads or writes. For the
  nodes whose dictionary has declared keys only, the model applies the dictionary at once,
  so that the node is a function from state to state; for \<open>validation_node\<close>, which also
  returns the undeclared key \<open>previous_gaps\<close>, the dictionary and its merge are separate.
  The calls of the language model and of the retriever are inputs of the model.
\<close>

record sub_query =
  sq_sub_query :: string
  sq_intent :: string
  sq_companies :: "string list"
  sq_years :: "int list option"
  sq_augmented_query :: "string option"

text \<open>A \<open>RetrievedChunk\<close> with the \<open>sub_query_intent\<close> entry of its metadata.\<close>

record retrieved_chunk =
  rc_content :: string
  rc_score :: real
  rc_intent :: "string option"

record agent_state =
  st_user_id :: "string option"
  st_is_decomposed :: bool
  st_sub_queries :: "sub_query list option"
  st_sub_query_results :: "(string \<times> retrieved_chunk list) list option"
  st_processed_query :: "string option"
  st_retrieval_sufficient :: bool
  st_retrieval_attempts :: nat
  st_gaps :: "string list"
  st_retrieved_context :: "retrieved_chunk list"

text \<open>\<open>str(n)\<close> for a non-negative integer.\<close>

fun string_of_nat :: "nat \<Rightarrow> string" where
  "string_of_nat n =
     (if n < 10 then [char_of (48 + n)]
      else string_of_nat (n div 10) @ [char_of (48 + n mod 10)])"

text \<open>The gap message of lines 605-606.\<close>

definition gap_message :: "sub_query \<Rightarrow> nat \<Rightarrow> string" where
  "gap_message sq n =
     ''Sub-query '' @ [CHR 0x27] @ sq_sub_query sq @ [CHR 0x27] @ '' (intent: '' @ sq_intent sq
       @ ''): insufficient results ('' @ string_of_nat n @ '' chunks)''"

text \<open>
  The dictionary that \<open>validation_node\<close> returns (lines 621-625, 683-688 and 698-702);
  \<open>vu_previous_gaps\<close> is \<open>None\<close> where the dictionary has no \<open>previous_gaps\<close> entry.
\<close>

record validation_update =
  vu_retrieval_sufficient :: bool
  vu_retrieval_attempts :: nat
  vu_gaps :: "string list"
  vu_previous_gaps :: "string list option"

text \<open>The \<open>except\<close> branch of \<open>validation_node\<close> (lines 690-702).\<close>

definition validation_error_fallback :: "agent_state \<Rightarrow> validation_update" where
  "validation_error_fallback st =
     (let attempts = st_retrieval_attempts st + 1;
          has_chunks = (length (st_retrieved_context st) > 0);
          force_sufficient = (has_chunks \<or> attempts \<ge> 3)
      in \<lparr> vu_retrieval_sufficient = force_sufficient,
           vu_retrieval_attempts = attempts,
           vu_gaps = [],
           vu_previous_gaps = None \<rparr>)"

text \<open>
  \<open>validation_node\<close> (lines 579-702), as a function of the state dictionary it is handed.
  \<open>llm\<close> is the outcome of the single-query validation: an exception raised while the
  prompt is built or the model is called, or the \<open>ValidationResponse\<close> with its
  \<open>sufficient\<close> flag and its gaps. In the decomposed branch a \<open>sub_query_results\<close> that is
  still \<open>None\<close> makes \<open>.get\<close> raise, which the \<open>except\<close> branch catches.
  \<open>previous_gaps_entry\<close> is the entry of the handed dictionary under the key
  \<open>previous_gaps\<close>, \<open>None\<close> when there is none: \<open>state.get("previous_gaps", [])\<close> is then the
  empty list.
\<close>

definition validation_node ::
  "(py_error + bool \<times> string list) \<Rightarrow> string list option \<Rightarrow> agent_state \<Rightarrow> validation_update" where
  "validation_node llm previous_gaps_entry st =
     (if st_is_decomposed st \<and> truthy_list (st_sub_queries st) then
        (case st_sub_query_results st of
           None \<Rightarrow> validation_error_fallback st
         | Some sub_query_results \<Rightarrow>
            (let gaps = concat (map (\<lambda>sq.
                          let relevant_chunks = dict_get sub_query_results (sq_intent sq)
                          in if length relevant_chunks < 2
                             then [gap_message sq (length relevant_chunks)] else [])
                        (the (st_sub_queries st)));
                 sufficient = (length gaps = 0);
                 attempts = st_retrieval_attempts st + 1;
                 sufficient' = (if attempts \<ge> 3 then True else sufficient)
             in \<lparr> vu_retrieval_sufficient = sufficient',
                  vu_retrieval_attempts = attempts,
                  vu_gaps = gaps,
                  vu_previous_gaps = None \<rparr>))
      else
        (case llm of
           Inl e \<Rightarrow> validation_error_fallback st
         | Inr (sufficient, gaps) \<Rightarrow>
            (let attempts = st_retrieval_attempts st + 1;
                 previous_gaps = (case previous_gaps_entry of None \<Rightarrow> [] | Some g \<Rightarrow> g);
                 sufficient' =
                   (if previous_gaps \<noteq> [] \<and> set gaps = set previous_gaps then True
                    else sufficient);
                 sufficient'' = (if attempts \<ge> 3 then True else sufficient')
             in \<lparr> vu_retrieval_sufficient = sufficient'',
                  vu_retrieval_attempts = attempts,
                  vu_gaps = gaps,
                  vu_previous_gaps = Some gaps \<rparr>)))"

text \<open>
  The merge of the returned dictionary into the state. \<open>retrieval_sufficient\<close>,
  \<open>retrieval_attempts\<close> and \<open>gaps\<close> are keys of \<open>AgentState\<close>; \<open>previous_gaps\<close> is not
  (neither state.py nor the initial state of orchestrator.py, lines 87-116, has it), so
  that entry is not stored.
\<close>

definition merge_validation :: "agent_state \<Rightarrow> validation_update \<Rightarrow> agent_state" where
  "merge_validation st u =
     st\<lparr> st_retrieval_sufficient := vu_retrieval_sufficient u,
         st_retrieval_attempts := vu_retrieval_attempts u,
         st_gaps := vu_gaps u \<rparr>"

text \<open>
  The validation node as the graph runs it: the handed dictionary is the stored state,
  which has no \<open>previous_gaps\<close> entry, and the result is merged.
\<close>

definition validation_step :: "(py_error + bool \<times> string list) \<Rightarrow> agent_state \<Rightarrow> agent_state" where
  "validation_step llm st = merge_validation st (validation_node llm None st)"

datatype retrieval_edge = Refine | End

text \<open>\<open>should_continue_retrieval\<close> (subgraph.py, lines 23-41).\<close>

definition should_continue_retrieval :: "agent_state \<Rightarrow> retrieval_edge" where
  "should_continue_retrieval st =
     (let sufficient = st_retrieval_sufficient st;
          attempts = st_retrieval_attempts st
      in if sufficient then End
         else if attempts \<ge> 3 then End
         else Refine)"

text \<open>
  \<open>retrieval_node\<close> (lines 543-576). \<open>retriever\<close> is the outcome of the retrieval for the
  current queries: an exception, or the converted chunks (pooled, deduplicated and sorted
  for a decomposed query).
\<close>

definition retrieval_node :: "(py_error + retrieved_chunk list) \<Rightarrow> agent_state \<Rightarrow> agent_state" where
  "retrieval_node retriever st =
     (if \<not> truthy_str (st_user_id st) then st\<lparr> st_retrieved_context := [] \<rparr>
      else if st_is_decomposed st \<and> truthy_list (st_sub_queries st) then
        (case retriever of
           Inl e \<Rightarrow> st\<lparr> st_retrieved_context := [] \<rparr>
         | Inr retrieved_chunks \<Rightarrow>
             st\<lparr> st_retrieved_context := retrieved_chunks,
                  st_sub_query_results :=
                    Some (fold (\<lambda>sq d. dict_set (sq_intent sq)
                                 (filter (\<lambda>c. rc_intent c = Some (sq_intent sq)) retrieved_chunks) d)
                            (the (st_sub_queries st)) []) \<rparr>)
      else if st_processed_query st = None then st\<lparr> st_retrieved_context := [] \<rparr>
      else
        (case retriever of
           Inl e \<Rightarrow> st\<lparr> st_retrieved_context := [] \<rparr>
         | Inr retrieved_chunks \<Rightarrow> st\<lparr> st_retrieved_context := retrieved_chunks \<rparr>))"

text \<open>
  \<open>refinement_node\<close> (lines 705-826). \<open>reprocess sq\<close> is the augmented text that
  \<open>process_query\<close> returns for a sub-query and \<open>refined\<close> the refined query of the
  single-query prompt, each possibly an exception; every exception ends in the \<open>except\<close>
  branch. The processed query is kept as its augmented text.
\<close>

definition has_gap :: "string list \<Rightarrow> sub_query \<Rightarrow> bool" where
  "has_gap gaps sq = list_ex (\<lambda>gap. str_in (sq_intent sq) gap \<or> str_in (sq_sub_query sq) gap) gaps"

definition refine_sub_query :: "(sub_query \<Rightarrow> py_error + string) \<Rightarrow> string list \<Rightarrow> sub_query
    \<Rightarrow> py_error + sub_query" where
  "refine_sub_query reprocess gaps sq =
     (if has_gap gaps sq then
        (case reprocess sq of
           Inl e \<Rightarrow> Inl e
         | Inr query_text \<Rightarrow> Inr (sq\<lparr> sq_augmented_query := Some query_text \<rparr>))
      else Inr sq)"

definition refinement_node ::
  "(sub_query \<Rightarrow> py_error + string) \<Rightarrow> (py_error + string) \<Rightarrow> agent_state \<Rightarrow> agent_state" where
  "refinement_node reprocess refined st =
     (if st_retrieval_attempts st \<ge> 3 then st\<lparr> st_retrieval_sufficient := True \<rparr>
      else if st_is_decomposed st \<and> truthy_list (st_sub_queries st) then
        (case map_err (refine_sub_query reprocess (st_gaps st)) (the (st_sub_queries st)) of
           Inl e \<Rightarrow> st\<lparr> st_retrieval_sufficient := True \<rparr>
         | Inr refined_sub_queries \<Rightarrow>
             st\<lparr> st_sub_queries := Some refined_sub_queries, st_retrieval_sufficient := False \<rparr>)
      else if st_processed_query st = None then st\<lparr> st_retrieval_sufficient := True \<rparr>
      else
        (case refined of
           Inl e \<Rightarrow> st\<lparr> st_retrieval_sufficient := True \<rparr>
         | Inr refined_query \<Rightarrow>
             st\<lparr> st_processed_query := Some refined_query, st_retrieval_sufficient := False \<rparr>))"

text \<open>
  What the outside world answers in round \<open>i\<close> of the loop: the retriever, the
  validation model, the re-augmentation of a sub-query and the refinement model.
\<close>

record retrieval_env =
  env_retriever :: "nat \<Rightarrow> py_error + retrieved_chunk list"
  env_validation :: "nat \<Rightarrow> py_error + bool \<times> string list"
  env_reprocess :: "nat \<Rightarrow> sub_query \<Rightarrow> py_error + string"
  env_refined :: "nat \<Rightarrow> py_error + string"

text \<open>
  The cycle of the subgraph (subgraph.py, lines 70-85): retrieval, validation, then the
  conditional edge, which ends the stage or goes through refinement back to retrieval.
  The fuel bounds the number of validations; \<open>None\<close> means that the stage has not ended
  within it.
\<close>

fun retrieval_loop :: "nat \<Rightarrow> retrieval_env \<Rightarrow> nat \<Rightarrow> agent_state \<Rightarrow> agent_state option" where
  "retrieval_loop 0 env i st = None"
| "retrieval_loop (Suc fuel) env i st =
     (let st' = validation_step (env_validation env i) (retrieval_node (env_retriever env i) st)
      in case should_continue_retrieval st' of
           End \<Rightarrow> Some st'
         | Refine \<Rightarrow>
             retrieval_loop fuel env (Suc i)
               (refinement_node (env_reprocess env i) (env_refined env i) st'))"

section \<open>Agent Orchestrator: generation stage\<close>

text \<open>
  A value parsed from JSON. An object is the association list of its keys. The charts of
  an \<open>AnswerResponse\<close> are such values: \<open>self_heal_node\<close> assigns whatever \<open>json.loads\<close>
  returned, so a chart need not be an object.
\<close>

datatype json =
  JNull | JBool bool | JNum real | JStr string | JArr "json list" | JObj "(string \<times> json) list"

record answer_response =
  ar_text :: string
  ar_charts :: "json list"

text \<open>
  The messages that \<open>quality_check_node\<close> appends, with the chart number \<open>i + 1\<close> and, for
  an invalid type, the offending value: "No response generated", "Chart n: Not a valid
  JSON object", "Chart n: Missing 'type' field", "Chart n: Invalid type '...'", "Chart n:
  Missing 'data' field", "Chart n: 'data' must be an object", "Chart n: Missing 'labels'
  or 'datasets' in data".
\<close>

datatype chart_error =
  NoResponseGenerated
  | NotJsonObject nat
  | MissingType nat
  | InvalidType nat json
  | MissingData nat
  | DataNotObject nat
  | MissingLabelsOrDatasets nat

record generation_state =
  gs_current_query :: string
  gs_response :: "answer_response option"
  gs_response_valid :: bool
  gs_validation_errors :: "chart_error list"
  gs_self_heal_attempts :: nat

text \<open>The body of the loop over the charts (nodes.py, lines 330-351) for chart \<open>i\<close>.\<close>

fun check_chart :: "nat \<Rightarrow> json \<Rightarrow> chart_error list" where
  "check_chart i (JObj chart) =
     (case map_of chart ''type'' of
        None \<Rightarrow> [MissingType (i + 1)]
      | Some t \<Rightarrow>
          if t \<in> set [JStr ''line'', JStr ''bar'', JStr ''pie'', JStr ''doughnut''] then []
          else [InvalidType (i + 1) t])
     @ (case map_of chart ''data'' of
          None \<Rightarrow> [MissingData (i + 1)]
        | Some (JObj data) \<Rightarrow>
            if map_of data ''labels'' = None \<or> map_of data ''datasets'' = None
            then [MissingLabelsOrDatasets (i + 1)] else []
        | Some _ \<Rightarrow> [DataNotObject (i + 1)])"
| "check_chart i chart = [NotJsonObject (i + 1)]"

definition check_charts :: "json list \<Rightarrow> chart_error list" where
  "check_charts charts = concat (map (\<lambda>(i, chart). check_chart i chart) (enumerate 0 charts))"

text \<open>
  \<open>quality_check_node\<close> (lines 307-373). The checks of the loop raise nothing on parsed
  JSON, so neither \<open>except\<close> branch is reached.
\<close>

definition quality_check_node :: "generation_state \<Rightarrow> generation_state" where
  "quality_check_node st =
     (case gs_response st of
        None \<Rightarrow> st\<lparr> gs_response_valid := False, gs_validation_errors := [NoResponseGenerated] \<rparr>
      | Some response \<Rightarrow>
          (let errors = check_charts (ar_charts response);
               valid = (length errors = 0)
           in st\<lparr> gs_response_valid := valid, gs_validation_errors := errors,
                   gs_self_heal_attempts := gs_self_heal_attempts st \<rparr>))"

text \<open>\<open>synthesis_node\<close> (lines 272-304): a missing response is replaced by an apology.\<close>

definition synthesis_node :: "generation_state \<Rightarrow> generation_state" where
  "synthesis_node st =
     (case gs_response st of
        Some existing_response \<Rightarrow> st\<lparr> gs_response := Some existing_response \<rparr>
      | None \<Rightarrow>
          st\<lparr> gs_response := Some \<lparr> ar_text =
                  ''I apologize, but I was unable to generate a response for your query: ''
                    @ gs_current_query st @ ''.'',
                ar_charts = [] \<rparr> \<rparr>)"

datatype healing_edge = Heal | EndHealing

text \<open>\<open>should_continue_healing\<close> (agent3_generation/subgraph.py, lines 18-34).\<close>

definition should_continue_healing :: "generation_state \<Rightarrow> healing_edge" where
  "should_continue_healing st =
     (let valid = gs_response_valid st;
          attempts = gs_self_heal_attempts st
      in if valid then EndHealing
         else if attempts \<ge> 2 then EndHealing
         else Heal)"

text \<open>
  What the repair call of \<open>self_heal_node\<close> can yield: an exception (from the prompt
  loader, the model call or a \<open>json.loads\<close> error other than \<open>JSONDecodeError\<close>), a reply
  without content, a content that is not JSON, or a parsed JSON value.
\<close>

datatype heal_reply = HealRaises | HealNoContent | HealNotJson | HealJson json

text \<open>Python truthiness of a parsed JSON value.\<close>

fun json_truthy :: "json \<Rightarrow> bool" where
  "json_truthy JNull = False"
| "json_truthy (JBool b) = b"
| "json_truthy (JNum x) = (x \<noteq> 0)"
| "json_truthy (JStr s) = (s \<noteq> [])"
| "json_truthy (JArr xs) = (xs \<noteq> [])"
| "json_truthy (JObj kvs) = (kvs \<noteq> [])"

text \<open>\<open>self_heal_node\<close> (lines 376-458).\<close>

definition self_heal_node :: "heal_reply \<Rightarrow> generation_state \<Rightarrow> generation_state" where
  "self_heal_node reply st =
     (let errors = gs_validation_errors st;
          attempts = gs_self_heal_attempts st
      in if attempts \<ge> 2 then st\<lparr> gs_response_valid := True \<rparr>
         else if errors = [] then st\<lparr> gs_response_valid := True \<rparr>
         else
           (case gs_response st of
              None \<Rightarrow> st\<lparr> gs_response_valid := True \<rparr>
            | Some current_response \<Rightarrow>
               (case reply of
                  HealRaises \<Rightarrow> st\<lparr> gs_response_valid := True \<rparr>
                | HealNoContent \<Rightarrow> st\<lparr> gs_response_valid := True \<rparr>
                | HealNotJson \<Rightarrow>
                    st\<lparr> gs_response := Some current_response,
                        gs_self_heal_attempts := attempts + 1,
                        gs_response_valid := False \<rparr>
                | HealJson corrected \<Rightarrow>
                    (let corrected_charts =
                           (case corrected of
                              JArr xs \<Rightarrow> xs
                            | _ \<Rightarrow> if json_truthy corrected then [corrected] else [])
                     in st\<lparr> gs_response := Some (current_response\<lparr> ar_charts := corrected_charts \<rparr>),
                            gs_self_heal_attempts := attempts + 1,
                            gs_response_valid := False \<rparr>))))"

text \<open>
  The cycle of the generation subgraph after the explanation (subgraph.py, lines 47-62):
  synthesis, quality check, then the conditional edge, which ends the loop or goes
  through self-heal back to synthesis. \<open>replies i\<close> is what the repair call yields in
  round \<open>i\<close>. The fuel bounds the number of quality checks; \<open>None\<close> means that the loop has
  not ended within it.
\<close>

fun healing_loop :: "nat \<Rightarrow> (nat \<Rightarrow> heal_reply) \<Rightarrow> nat \<Rightarrow> generation_state
    \<Rightarrow> generation_state option" where
  "healing_loop 0 replies i st = None"
| "healing_loop (Suc fuel) replies i st =
     (let st' = quality_check_node (synthesis_node st)
      in case should_continue_healing st' of
           EndHealing \<Rightarrow> Some st'
         | Heal \<Rightarrow> healing_loop fuel replies (Suc i) (self_heal_node (replies i) st'))"

text \<open>
  The shape that the specification requires of a chart: a JSON object whose \<open>type\<close> is one
  of line, bar, pie, doughnut and whose \<open>data\<close> is an object with \<open>labels\<close> and \<open>datasets\<close>.
\<close>

fun chart_well_formed :: "json \<Rightarrow> bool" where
  "chart_well_formed (JObj chart) =
     ((case map_of chart ''type'' of
         None \<Rightarrow> False
       | Some t \<Rightarrow> t = JStr ''line'' \<or> t = JStr ''bar'' \<or> t = JStr ''pie'' \<or> t = JStr ''doughnut'')
      \<and> (case map_of chart ''data'' of
            Some (JObj data) \<Rightarrow> map_of data ''labels'' \<noteq> None \<and> map_of data ''datasets'' \<noteq> None
          | _ \<Rightarrow> False))"
| "chart_well_formed chart = False"

section \<open>Notions used in the statements\<close>

text \<open>A chunk belongs to a company when its metadata names it, whatever the case.\<close>

definition company_is :: "string \<Rightarrow> chunk \<Rightarrow> bool" where
  "company_is company r =
     (case ch_company r of None \<Rightarrow> False | Some c \<Rightarrow> lower c = lower company)"

text \<open>The list that takes one element of \<open>A\<close> and one of \<open>B\<close> in each of \<open>k\<close> rounds.\<close>

definition interleave :: "'a list \<Rightarrow> 'a list \<Rightarrow> nat \<Rightarrow> 'a list" where
  "interleave A B k = concat (map (\<lambda>i. [A ! i, B ! i]) [0 ..< k])"

text \<open>The deduplication key of a chunk that has a content.\<close>

definition content_key :: "(string \<Rightarrow> int) \<Rightarrow> chunk \<Rightarrow> int" where
  "content_key h chunk = h (take CONTENT_HASH_LENGTH (the (ch_content chunk)))"

text \<open>
  The state of \<open>_balance_results\<close> after \<open>k\<close> full rounds over two companies whose sorted
  results are \<open>A\<close> and \<open>B\<close>.
\<close>

definition round_inv ::
  "chunk list \<Rightarrow> chunk list \<Rightarrow> string \<Rightarrow> string \<Rightarrow> nat \<Rightarrow> balance_state \<Rightarrow> bool" where
  "round_inv A B c1 c2 k st \<longleftrightarrow>
     balanced_results st = interleave A B k \<and> taken_count st c1 = k \<and> taken_count st c2 = k"

section \<open>Example inputs\<close>

text \<open>Candidates of a two-company query as \<open>search\<close> builds them, six and five per company.\<close>

definition example_candidates :: "chunk list" where
  "example_candidates =
     [new_chunk ''a1'' (Some ''iphone revenue'') 0.9 (Some ''Apple''),
      new_chunk ''a2'' (Some ''services revenue'') 0.8 (Some ''apple''),
      new_chunk ''m1'' (Some ''azure revenue'') 0.95 (Some ''microsoft''),
      new_chunk ''a3'' (Some ''mac revenue'') 0.7 (Some ''apple''),
      new_chunk ''a4'' (Some ''ipad revenue'') 0.6 (Some ''apple''),
      new_chunk ''a5'' (Some ''wearables revenue'') 0.5 (Some ''apple''),
      new_chunk ''a6'' (Some ''total revenue'') 0.4 (Some ''apple''),
      new_chunk ''m2'' (Some ''office revenue'') 0.3 (Some ''Microsoft''),
      new_chunk ''m3'' (Some ''windows revenue'') 0.3 (Some ''microsoft''),
      new_chunk ''m4'' (Some ''xbox revenue'') 0.2 (Some ''microsoft''),
      new_chunk ''m5'' (Some ''linkedin revenue'') 0.1 (Some ''microsoft'')]"

text \<open>
  A comparison query over an index that returns two chunks per company with equal
  similarity; the two Apple chunks contain the query's words inside longer words.
\<close>

definition chunk_a1 :: chunk where "chunk_a1 = new_chunk ''a1'' (Some ''pineapple revenues'') 0.5 (Some ''apple'')"
definition chunk_m1 :: chunk where "chunk_m1 = new_chunk ''m1'' (Some ''windows sales'') 0.5 (Some ''microsoft'')"
definition chunk_a2 :: chunk where "chunk_a2 = new_chunk ''a2'' (Some ''pineapple revenues up'') 0.5 (Some ''apple'')"
definition chunk_m2 :: chunk where "chunk_m2 = new_chunk ''m2'' (Some ''office sales'') 0.5 (Some ''microsoft'')"

definition tied_index :: backend where
  "tied_index user_id limit = Inr [chunk_a1, chunk_m1, chunk_a2, chunk_m2]"

text \<open>The chunk \<open>x\<close> as \<open>hybrid_search\<close> and then \<open>_rerank_with_keywords\<close> leave it here.\<close>

definition scored :: "chunk \<Rightarrow> real \<Rightarrow> chunk" where
  "scored x kw = x\<lparr>ch_score := 0, ch_semantic_score := Some 0, ch_keyword_score := Some kw\<rparr>"

definition reranked :: "chunk \<Rightarrow> real \<Rightarrow> real \<Rightarrow> chunk" where
  "reranked x kw rs = (scored x kw)\<lparr>ch_rerank_score := Some rs, ch_keyword_rerank_score := Some kw\<rparr>"

definition comparison_extraction :: llm_extraction where
  "comparison_extraction =
     \<lparr> llm_companies = [''apple'', ''microsoft''], llm_year = None, llm_year_range = None,
       llm_augmented_query = Some ''apple revenue'', llm_needs_year_expansion = None \<rparr>"

text \<open>
  Two runs of the retrieval stage that make no progress. In the decomposed run the
  retriever finds one chunk for the only sub-query each time; in the single-query run
  the validation model answers "insufficient" with the same two gaps each time, in a
  different order. The states are those after the first and after the second validation.
\<close>

definition revenue_sub_query :: sub_query where
  "revenue_sub_query =
     \<lparr> sq_sub_query = ''NVIDIA revenue 2017'', sq_intent = ''revenue_lookup'',
       sq_companies = [''nvidia''], sq_years = Some [2017],
       sq_augmented_query = Some ''nvidia revenue 2017'' \<rparr>"

definition revenue_chunk :: retrieved_chunk where
  "revenue_chunk =
     \<lparr> rc_content = ''Revenue for fiscal 2017 was 6.91 billion'', rc_score = 0.8,
       rc_intent = Some ''revenue_lookup'' \<rparr>"

definition decomposed_start :: agent_state where
  "decomposed_start =
     \<lparr> st_user_id = Some ''u1'', st_is_decomposed = True,
       st_sub_queries = Some [revenue_sub_query], st_sub_query_results = None,
       st_processed_query = None, st_retrieval_sufficient = False,
       st_retrieval_attempts = 0, st_gaps = [],
       st_retrieved_context = [] \<rparr>"

definition decomposed_attempt1 :: agent_state where
  "decomposed_attempt1 =
     validation_step (Inr (False, [])) (retrieval_node (Inr [revenue_chunk]) decomposed_start)"

definition decomposed_attempt2 :: agent_state where
  "decomposed_attempt2 =
     validation_step (Inr (False, []))
       (retrieval_node (Inr [revenue_chunk])
          (refinement_node (\<lambda>sq. Inr ''nvidia total revenue fiscal 2017'') (Inl ValueError)
             decomposed_attempt1))"

definition single_start :: agent_state where
  "single_start =
     \<lparr> st_user_id = Some ''u1'', st_is_decomposed = False,
       st_sub_queries = None, st_sub_query_results = None,
       st_processed_query = Some ''nvidia revenue 2017'', st_retrieval_sufficient = False,
       st_retrieval_attempts = 0, st_gaps = [],
       st_retrieved_context = [] \<rparr>"

definition single_attempt1 :: agent_state where
  "single_attempt1 =
     validation_step (Inr (False, [''2017 revenue missing'', ''net income missing'']))
       (retrieval_node (Inr [revenue_chunk]) single_start)"

definition single_attempt2 :: agent_state where
  "single_attempt2 =
     validation_step (Inr (False, [''net income missing'', ''2017 revenue missing'']))
       (retrieval_node (Inr [revenue_chunk])
          (refinement_node (\<lambda>sq. Inr ''nvidia total revenue fiscal 2017'')
             (Inr ''nvidia total revenue fiscal 2017'') single_attempt1))"

text \<open>
  The generation state after the explanation step produced the chart
  \<open>{"type": "scatter", "data": {}}\<close>.
\<close>

definition scatter_chart :: json where
  "scatter_chart = JObj [(''type'', JStr ''scatter''), (''data'', JObj [])]"

definition scatter_state :: generation_state where
  "scatter_state =
     \<lparr> gs_current_query = ''Plot Apple revenue against net income'',
       gs_response = Some \<lparr> ar_text = ''Revenue and net income moved together. [CHART:1]'',
                            ar_charts = [scatter_chart] \<rparr>,
       gs_response_valid = False, gs_validation_errors = [], gs_self_heal_attempts = 0 \<rparr>"

section \<open>Theorems\<close>

subsection \<open>Sorting and grouping\<close>

lemma filter_company_total:
  "\<forall>r \<in> set rs. ch_company r \<noteq> None \<Longrightarrow>
   filter_company c rs = Inr (filter (\<lambda>r. lower (the (ch_company r)) = c) rs)"
  by (induction rs) auto

lemma set_insert_desc: "set (insert_desc key x ys) = insert x (set ys)"
  by (induction ys) auto

lemma length_insert_desc: "length (insert_desc key x ys) = Suc (length ys)"
  by (induction ys) auto

lemma set_sort_desc: "set (sort_desc key xs) = set xs"
  by (induction xs) (simp_all add: sort_desc_def set_insert_desc)

lemma length_sort_desc: "length (sort_desc key xs) = length xs"
  by (induction xs) (simp_all add: sort_desc_def length_insert_desc)

lemma company_is_filter:
  "\<forall>r \<in> set rs. ch_company r \<noteq> None \<Longrightarrow>
   filter (\<lambda>r. lower (the (ch_company r)) = lower c) rs = filter (company_is c) rs"
  by (induction rs) (auto simp: company_is_def)

lemma lower_examples:
  "lower ''Apple'' = ''apple''" "lower ''apple'' = ''apple''"
  "lower ''Microsoft'' = ''microsoft''" "lower ''microsoft'' = ''microsoft''"
  by code_simp+

subsection \<open>Retrieval Engine: balance of a two-company result\<close>

lemma interleave_Suc: "interleave A B (Suc k) = interleave A B k @ [A ! k, B ! k]"
  by (simp add: interleave_def)

lemma length_interleave: "length (interleave A B k) = 2 * k"
  by (induction k) (simp_all add: interleave_Suc, simp add: interleave_def)

lemma filter_interleave:
  "(\<And>i. i < k \<Longrightarrow> P (A ! i) \<and> \<not> P (B ! i)) \<Longrightarrow> length (filter P (interleave A B k)) = k"
  by (induction k) (simp_all add: interleave_Suc, simp add: interleave_def)

lemma one_round:
  assumes "c1 \<noteq> c2" "k < length A" "k < length B" "k < 5" "round_inv A B c1 c2 k st"
  shows "round_inv A B c1 c2 (Suc k)
           (balance_round [(c1, A), (c2, B)] 10 5 k [c1, c2] st)"
  using assms
  by (simp add: round_inv_def dict_get_def interleave_Suc length_interleave)

lemma all_rounds:
  assumes "c1 \<noteq> c2" "5 \<le> length A" "5 \<le> length B" "5 \<le> m"
  shows "k < 5 \<Longrightarrow> round_inv A B c1 c2 k st \<Longrightarrow>
         round_inv A B c1 c2 5
           (balance_rounds [(c1, A), (c2, B)] 10 5 [c1, c2] [k ..< m] st)"
proof (induction "4 - k" arbitrary: k st)
  case 0
  then have k: "k = 4" by simp
  have u: "[k ..< m] = k # [Suc k ..< m]" using assms(4) k by (simp add: upt_rec)
  have "round_inv A B c1 c2 (Suc k) (balance_round [(c1, A), (c2, B)] 10 5 k [c1, c2] st)"
    using one_round [OF assms(1) _ _ "0.prems"(1) "0.prems"(2)] assms(2,3) k by simp
  then show ?case
    unfolding u using k by (simp add: Let_def round_inv_def length_interleave)
next
  case (Suc n)
  then have k: "k < 4" by simp
  have u: "[k ..< m] = k # [Suc k ..< m]" using assms(4) k by (simp add: upt_rec)
  have r: "round_inv A B c1 c2 (Suc k) (balance_round [(c1, A), (c2, B)] 10 5 k [c1, c2] st)"
    using one_round [OF assms(1) _ _ Suc.prems(1) Suc.prems(2)] assms(2,3) k by simp
  then have l: "length (balanced_results (balance_round [(c1, A), (c2, B)] 10 5 k [c1, c2] st))
      = 2 * Suc k"
    by (simp add: round_inv_def length_interleave)
  have "round_inv A B c1 c2 5
          (balance_rounds [(c1, A), (c2, B)] 10 5 [c1, c2] [Suc k ..< m]
             (balance_round [(c1, A), (c2, B)] 10 5 k [c1, c2] st))"
    using Suc.hyps(1) [of "Suc k"] Suc.hyps(2) k r by simp
  then show ?case
    unfolding u using k l by (simp add: Let_def)
qed


text \<open>
  C1. For two target companies that differ after lower-casing and \<open>top_k = 10\<close>: when every
  candidate chunk names a company and each of the two companies has at least five
  candidates, \<open>_balance_results\<close> returns ten chunks, exactly five of each company.
\<close>

theorem C1_balance:
  assumes some: "\<forall>r \<in> set results. ch_company r \<noteq> None"
    and ne: "lower c1 \<noteq> lower c2"
    and a5: "5 \<le> length (filter (company_is c1) results)"
    and b5: "5 \<le> length (filter (company_is c2) results)"
  shows "\<exists>out. balance_results results [c1, c2] 10 = Inr out \<and> length out = 10
           \<and> length (filter (company_is c1) out) = 5
           \<and> length (filter (company_is c2) out) = 5"
proof -
  define A where "A = sort_desc ch_score (filter (company_is c1) results)"
  define B where "B = sort_desc ch_score (filter (company_is c2) results)"
  define st0 where "st0 = \<lparr> balanced_results = [], taken_count = (\<lambda>company. 0::nat),
                             remainder = (0::nat) \<rparr>"
  define m where "m = max (length A) (length B)"
  define st where
    "st = balance_rounds [(lower c1, A), (lower c2, B)] 10 5 [lower c1, lower c2] [0 ..< m] st0"
  have lA: "5 \<le> length A" and lB: "5 \<le> length B"
    using a5 b5 by (simp_all add: A_def B_def length_sort_desc)
  have grp: "group_by_company (sort_desc ch_score) results [lower c1, lower c2] []
               = Inr [(lower c1, A), (lower c2, B)]"
    using ne by (simp add: filter_company_total [OF some] company_is_filter [OF some] A_def B_def)
  have m5: "5 \<le> m" using lA by (simp add: m_def)
  have ar: "(10::nat) div Suc (Suc 0) = 5" "(10::nat) mod Suc (Suc 0) = 0"
    by (simp_all add: numeral_2_eq_2 [symmetric])
  have res: "balance_results results [c1, c2] 10 = Inr (take 10 (balanced_results st))"
    using ne ar by (simp add: balance_results_def grp dict_get_def st_def st0_def m_def Let_def
                    del: group_by_company.simps)
  have "round_inv A B (lower c1) (lower c2) 0 st0"
    by (simp add: round_inv_def st0_def interleave_def)
  then have inv: "round_inv A B (lower c1) (lower c2) 5 st"
    unfolding st_def using all_rounds [OF ne lA lB m5, of 0 st0] by simp
  then have out: "balanced_results st = interleave A B 5" by (simp add: round_inv_def)
  have inA: "company_is c1 (A ! i) \<and> \<not> company_is c2 (A ! i)" if "i < 5" for i
  proof -
    have "A ! i \<in> set A" using that lA by simp
    then have "company_is c1 (A ! i)" by (simp add: A_def set_sort_desc)
    then show ?thesis using ne by (auto simp: company_is_def split: option.splits)
  qed
  have inB: "company_is c2 (B ! i) \<and> \<not> company_is c1 (B ! i)" if "i < 5" for i
  proof -
    have "B ! i \<in> set B" using that lB by simp
    then have "company_is c2 (B ! i)" by (simp add: B_def set_sort_desc)
    then show ?thesis using ne by (auto simp: company_is_def split: option.splits)
  qed
  have cA: "length (filter (company_is c1) (interleave A B 5)) = 5"
    by (rule filter_interleave) (use inA inB in auto)
  have "length (filter (company_is c2) (interleave B A 5)) = 5"
    by (rule filter_interleave) (use inA inB in auto)
  moreover have "length (filter P (interleave A B k)) = length (filter P (interleave B A k))" for P k
    by (induction k) (simp_all add: interleave_Suc, simp add: interleave_def)
  ultimately have cB: "length (filter (company_is c2) (interleave A B 5)) = 5" by simp
  show ?thesis
    using res out cA cB by (simp add: length_interleave)
qed


theorem C1_balance_witness:
  "lower ''Apple'' \<noteq> lower ''Microsoft''
   \<and> 5 \<le> length (filter (company_is ''Apple'') example_candidates)
   \<and> 5 \<le> length (filter (company_is ''Microsoft'') example_candidates)
   \<and> (\<exists>out. balance_results example_candidates [''Apple'', ''Microsoft''] 10 = Inr out
         \<and> length out = 10
         \<and> length (filter (company_is ''Apple'') out) = 5
         \<and> length (filter (company_is ''Microsoft'') out) = 5)"
proof -
  have h1: "\<forall>r \<in> set example_candidates. ch_company r \<noteq> None"
    by (simp add: example_candidates_def new_chunk_def)
  have h2: "lower ''Apple'' \<noteq> lower ''Microsoft''"
    by (simp add: lower_examples)
  have h3: "5 \<le> length (filter (company_is ''Apple'') example_candidates)"
    by (simp add: example_candidates_def new_chunk_def company_is_def lower_examples)
  have h4: "5 \<le> length (filter (company_is ''Microsoft'') example_candidates)"
    by (simp add: example_candidates_def new_chunk_def company_is_def lower_examples)
  from C1_balance [OF h1 h2 h3 h4] h2 h3 h4 show ?thesis by blast
qed

subsection \<open>Retrieval Engine: ordering of the final result of retrieve\<close>

lemma sorted_insert_desc:
  "sorted_wrt (\<lambda>x y. key y \<le> key x) ys \<Longrightarrow>
   sorted_wrt (\<lambda>x y. key y \<le> key x) (insert_desc key x ys)"
  by (induction ys) (auto simp: set_insert_desc)

lemma sorted_sort_desc: "sorted_wrt (\<lambda>x y. key y \<le> key x) (sort_desc key xs)"
  by (induction xs) (simp_all add: sort_desc_def sorted_insert_desc)

text \<open>
  Whatever order the balancing produced, the list that \<open>_rerank_with_keywords\<close> returns
  is in descending order of the rerank score over all companies together.
\<close>

lemma rerank_with_keywords_sorted:
  "rerank_with_keywords ps results query_text = Inr out \<Longrightarrow>
   sorted_wrt (\<lambda>x y. rerank_key y \<le> rerank_key x) out"
  by (auto simp: rerank_with_keywords_def sorted_sort_desc split: sum.splits)

lemma tok_q: "tokenize financial_phrases ''apple revenue'' = [''apple'', ''revenue'']"
  by code_simp
lemma tok_a1: "tokenize financial_phrases ''pineapple revenues'' = [''pineapple'', ''revenues'']"
  by code_simp
lemma tok_a2: "tokenize financial_phrases ''pineapple revenues up'' = [''pineapple'', ''revenues'', ''up'']"
  by code_simp
lemma tok_m1: "tokenize financial_phrases ''windows sales'' = [''windows'', ''sales'']"
  by code_simp
lemma tok_m2: "tokenize financial_phrases ''office sales'' = [''office'', ''sales'']"
  by code_simp
lemma phr_q: "extract_phrases financial_phrases ''apple revenue'' 2 3 = [''apple revenue'']"
  by code_simp
lemma low_c:
  "lower ''pineapple revenues'' = ''pineapple revenues''"
  "lower ''pineapple revenues up'' = ''pineapple revenues up''"
  "lower ''windows sales'' = ''windows sales''"
  "lower ''office sales'' = ''office sales''"
  by code_simp+
lemma in_c:
  "str_in ''apple revenue'' ''pineapple revenues''"
  "str_in ''apple revenue'' ''pineapple revenues up''"
  "\<not> str_in ''apple revenue'' ''windows sales''"
  "\<not> str_in ''apple revenue'' ''office sales''"
  by code_simp+
lemma misc_c:
  "''apple revenue'' \<notin> set financial_phrases"
  "length (split ''apple revenue'') = 2"
  by code_simp+

lemma kw_values:
  "calculate_keyword_relevance financial_phrases ''apple revenue'' ''pineapple revenues'' True = 7 / 10"
  "calculate_keyword_relevance financial_phrases ''apple revenue'' ''pineapple revenues up'' True = 7 / 10"
  "calculate_keyword_relevance financial_phrases ''apple revenue'' ''windows sales'' True = 1 / 2"
  "calculate_keyword_relevance financial_phrases ''apple revenue'' ''office sales'' True = 1 / 2"
  by (simp_all add: calculate_keyword_relevance_def tok_q tok_a1 tok_a2 tok_m1 tok_m2 phr_q low_c
        in_c misc_c calculate_bm25_score_def phrase_bonus_of_def Let_def)


lemma lower_examples2:
  "lower ''apple'' = ''apple''" "lower ''microsoft'' = ''microsoft''"
  by code_simp+

lemma small_arith:
  "[0 ..< 2] = [0, Suc 0]"
  "(90::nat) div Suc (Suc 0) = 45" "(90::nat) mod Suc (Suc 0) = 0"
  "(30::nat) div Suc (Suc 0) = 15" "(30::nat) mod Suc (Suc 0) = 0"
  by (simp_all add: upt_rec numeral_2_eq_2 [symmetric])

lemma fields:
  "ch_company chunk_a1 = Some ''apple''" "ch_company chunk_a2 = Some ''apple''"
  "ch_company chunk_m1 = Some ''microsoft''" "ch_company chunk_m2 = Some ''microsoft''"
  "ch_score chunk_a1 = 1 / 2" "ch_score chunk_a2 = 1 / 2" "ch_score chunk_m1 = 1 / 2" "ch_score chunk_m2 = 1 / 2"
  "ch_content chunk_a1 = Some ''pineapple revenues''" "ch_content chunk_a2 = Some ''pineapple revenues up''"
  "ch_content chunk_m1 = Some ''windows sales''" "ch_content chunk_m2 = Some ''office sales''"
  "ch_id chunk_a1 = ''a1''" "ch_id chunk_a2 = ''a2''" "ch_id chunk_m1 = ''m1''" "ch_id chunk_m2 = ''m2''"
  by (simp_all add: chunk_a1_def chunk_m1_def chunk_a2_def chunk_m2_def new_chunk_def)

lemma names_ne: "''apple'' \<noteq> ''microsoft''" "''microsoft'' \<noteq> ''apple''"
  by simp_all

lemma filter_two_by_two:
  assumes "ch_company x1 = Some ''apple''" "ch_company x2 = Some ''apple''"
    "ch_company y1 = Some ''microsoft''" "ch_company y2 = Some ''microsoft''"
  shows "filter_company ''apple'' [x1, x2, y1, y2] = Inr [x1, x2]"
    and "filter_company ''microsoft'' [x1, x2, y1, y2] = Inr [y1, y2]"
    and "filter_company ''apple'' [x1, y1, x2, y2] = Inr [x1, x2]"
    and "filter_company ''microsoft'' [x1, y1, x2, y2] = Inr [y1, y2]"
  using assms by (simp_all add: lower_examples2 names_ne del: list.inject char.inject)

lemma sort_two:
  "ch_score x2 \<le> ch_score x1 \<Longrightarrow> sort_desc ch_score [x1, x2] = [x1, x2]"
  by (simp add: sort_desc_def)

lemma rounds_two_by_two:
  assumes "2 \<le> pk" "4 \<le> k"
  shows "balanced_results (balance_rounds [(''apple'', [x1, x2]), (''microsoft'', [y1, y2])] k pk
           [''apple'', ''microsoft''] [0, Suc 0]
           \<lparr> balanced_results = [], taken_count = (\<lambda>company. 0), remainder = r \<rparr>)
         = [x1, y1, x2, y2]"
  using assms by (simp add: dict_get_def names_ne Let_def del: list.inject char.inject)

lemma balance_two_by_two:
  assumes c: "ch_company x1 = Some ''apple''" "ch_company x2 = Some ''apple''"
      "ch_company y1 = Some ''microsoft''" "ch_company y2 = Some ''microsoft''"
    and s: "ch_score x2 \<le> ch_score x1" "ch_score y2 \<le> ch_score y1"
    and k: "4 \<le> k"
  shows "balance_results [x1, x2, y1, y2] [''apple'', ''microsoft''] k = Inr [x1, y1, x2, y2]"
    and "balance_results [x1, y1, x2, y2] [''apple'', ''microsoft''] k = Inr [x1, y1, x2, y2]"
proof -
  have pk: "2 \<le> max 1 (k div 2)" using k by simp
  have g1: "group_by_company (sort_desc ch_score) [x1, x2, y1, y2] [''apple'', ''microsoft''] []
              = Inr [(''apple'', [x1, x2]), (''microsoft'', [y1, y2])]"
    by (simp add: filter_two_by_two [OF c] sort_two s names_ne
          del: list.inject char.inject filter_company.simps)
  have g2: "group_by_company (sort_desc ch_score) [x1, y1, x2, y2] [''apple'', ''microsoft''] []
              = Inr [(''apple'', [x1, x2]), (''microsoft'', [y1, y2])]"
    by (simp add: filter_two_by_two [OF c] sort_two s names_ne
          del: list.inject char.inject filter_company.simps)
  have m: "foldr max [length (dict_get [(''apple'', [x1, x2]), (''microsoft'', [y1, y2])] ''apple''),
                      length (dict_get [(''apple'', [x1, x2]), (''microsoft'', [y1, y2])] ''microsoft'')]
             0 = 2"
    by (simp add: dict_get_def names_ne del: list.inject char.inject)
  have l: "length [''apple'', ''microsoft''] = 2" by simp
  have t: "take k [x1, y1, x2, y2] = [x1, y1, x2, y2]" using k by simp
  show "balance_results [x1, x2, y1, y2] [''apple'', ''microsoft''] k = Inr [x1, y1, x2, y2]"
    unfolding balance_results_def Let_def
    by (simp only: list.map lower_examples2 g1 sum.case m l small_arith
          rounds_two_by_two [OF pk k] t list.distinct if_False)
  show "balance_results [x1, y1, x2, y2] [''apple'', ''microsoft''] k = Inr [x1, y1, x2, y2]"
    unfolding balance_results_def Let_def
    by (simp only: list.map lower_examples2 g2 sum.case m l small_arith
          rounds_two_by_two [OF pk k] t list.distinct if_False)
qed

lemma normalize_company_tied:
  assumes "ch_score x1 = ch_score x2"
  shows "normalize_company [x1, x2] = [x1\<lparr>ch_score := 0\<rparr>, x2\<lparr>ch_score := 0\<rparr>]"
proof -
  have mean: "sum_list (map ch_score [x1, x2]) / real (length (map ch_score [x1, x2])) = ch_score x2"
    using assms by simp
  show ?thesis
    unfolding normalize_company_def Let_def mean using assms by simp
qed

lemma normalize_tied:
  assumes c: "ch_company x1 = Some ''apple''" "ch_company x2 = Some ''apple''"
      "ch_company y1 = Some ''microsoft''" "ch_company y2 = Some ''microsoft''"
    and s: "ch_score x1 = ch_score x2" "ch_score y1 = ch_score y2"
  shows "normalize_scores_per_company [x1, y1, x2, y2] [''apple'', ''microsoft'']
     = Inr [x1\<lparr>ch_score := 0\<rparr>, x2\<lparr>ch_score := 0\<rparr>, y1\<lparr>ch_score := 0\<rparr>, y2\<lparr>ch_score := 0\<rparr>]"
  by (simp add: normalize_scores_per_company_def lower_examples2 filter_two_by_two [OF c]
        normalize_company_tied s names_ne del: list.inject char.inject filter_company.simps)

lemma filter_companies_two_by_two:
  assumes c: "ch_company x1 = Some ''apple''" "ch_company x2 = Some ''apple''"
      "ch_company y1 = Some ''microsoft''" "ch_company y2 = Some ''microsoft''"
  shows "filter_companies [''apple'', ''microsoft''] [x1, y1, x2, y2] = Inr [x1, y1, x2, y2]"
  using c by (simp add: lower_examples2)

lemma upd_fields:
  "ch_company (x\<lparr>ch_score := v\<rparr>) = ch_company x"
  "ch_content (x\<lparr>ch_score := v\<rparr>) = ch_content x"
  "ch_id (x\<lparr>ch_score := v\<rparr>) = ch_id x"
  "ch_score (x\<lparr>ch_score := v\<rparr>) = v"
  by simp_all

lemma step_search:
  "search tied_index (Some ''u1'') 90 None (Some [''apple'', ''microsoft'']) []
     = (Inr [chunk_a1\<lparr>ch_score := 0\<rparr>, chunk_m1\<lparr>ch_score := 0\<rparr>, chunk_a2\<lparr>ch_score := 0\<rparr>, chunk_m2\<lparr>ch_score := 0\<rparr>],
        [(''u1'', 270)])"
proof -
  have n: "normalize_scores_per_company [chunk_a1, chunk_m1, chunk_a2, chunk_m2] [''apple'', ''microsoft'']
     = Inr [chunk_a1\<lparr>ch_score := 0\<rparr>, chunk_a2\<lparr>ch_score := 0\<rparr>, chunk_m1\<lparr>ch_score := 0\<rparr>, chunk_m2\<lparr>ch_score := 0\<rparr>]"
    by (rule normalize_tied) (simp_all add: fields)
  have b: "balance_results [chunk_a1\<lparr>ch_score := 0\<rparr>, chunk_a2\<lparr>ch_score := 0\<rparr>, chunk_m1\<lparr>ch_score := 0\<rparr>, chunk_m2\<lparr>ch_score := 0\<rparr>]
             [''apple'', ''microsoft''] 90
     = Inr [chunk_a1\<lparr>ch_score := 0\<rparr>, chunk_m1\<lparr>ch_score := 0\<rparr>, chunk_a2\<lparr>ch_score := 0\<rparr>, chunk_m2\<lparr>ch_score := 0\<rparr>]"
    by (rule balance_two_by_two(1)) (simp_all add: fields)
  have f: "filter_companies [''apple'', ''microsoft''] [chunk_a1, chunk_m1, chunk_a2, chunk_m2] = Inr [chunk_a1, chunk_m1, chunk_a2, chunk_m2]"
    by (rule filter_companies_two_by_two) (simp_all add: fields)
  have t: "target_companies_of None (Some [''apple'', ''microsoft'']) = [''apple'', ''microsoft'']"
    by (simp add: target_companies_of_def lower_examples2)
  show ?thesis
    unfolding search_def Let_def t
    by (simp add: tied_index_def lower_examples2 f n b
          del: filter_companies.simps list.inject char.inject)
qed

lemma scored_fields:
  "ch_company (scored x kw) = ch_company x"
  "ch_content (scored x kw) = ch_content x"
  "ch_id (scored x kw) = ch_id x"
  "ch_score (scored x kw) = 0"
  by (simp_all add: scored_def)

lemma step_score:
  "map_err (score_chunk financial_phrases 0.7 ''apple revenue'')
     [chunk_a1\<lparr>ch_score := 0\<rparr>, chunk_m1\<lparr>ch_score := 0\<rparr>, chunk_a2\<lparr>ch_score := 0\<rparr>, chunk_m2\<lparr>ch_score := 0\<rparr>]
   = Inr [(scored chunk_a1 (7/10))\<lparr>ch_score := 21/100\<rparr>, (scored chunk_m1 (1/2))\<lparr>ch_score := 3/20\<rparr>,
          (scored chunk_a2 (7/10))\<lparr>ch_score := 21/100\<rparr>, (scored chunk_m2 (1/2))\<lparr>ch_score := 3/20\<rparr>]"
  by (simp add: score_chunk_def fields kw_values normalize_semantic_def scored_def Let_def)

lemma step_hybrid:
  "hybrid_search financial_phrases tied_index ''apple revenue'' (Some ''u1'') 30 0.7 None
     (Some [''apple'', ''microsoft'']) []
   = (Inr [scored chunk_a1 (7/10), scored chunk_m1 (1/2), scored chunk_a2 (7/10), scored chunk_m2 (1/2)], [(''u1'', 270)])"
proof -
  have t: "target_companies_of None (Some [''apple'', ''microsoft'']) = [''apple'', ''microsoft'']"
    by (simp add: target_companies_of_def lower_examples2)
  have u: "(scored x kw)\<lparr>ch_score := v, ch_score := 0\<rparr> = scored x kw" for x kw v
    by (simp add: scored_def)
  have n: "normalize_scores_per_company
             [(scored chunk_a1 (7/10))\<lparr>ch_score := 21/100\<rparr>, (scored chunk_m1 (1/2))\<lparr>ch_score := 3/20\<rparr>,
              (scored chunk_a2 (7/10))\<lparr>ch_score := 21/100\<rparr>, (scored chunk_m2 (1/2))\<lparr>ch_score := 3/20\<rparr>]
             [''apple'', ''microsoft'']
     = Inr [scored chunk_a1 (7/10), scored chunk_a2 (7/10), scored chunk_m1 (1/2), scored chunk_m2 (1/2)]"
    using normalize_tied [of "(scored chunk_a1 (7/10))\<lparr>ch_score := 21/100\<rparr>"
        "(scored chunk_a2 (7/10))\<lparr>ch_score := 21/100\<rparr>" "(scored chunk_m1 (1/2))\<lparr>ch_score := 3/20\<rparr>"
        "(scored chunk_m2 (1/2))\<lparr>ch_score := 3/20\<rparr>"]
    by (simp add: scored_fields fields u)
  have b: "balance_results [scored chunk_a1 (7/10), scored chunk_a2 (7/10), scored chunk_m1 (1/2), scored chunk_m2 (1/2)]
             [''apple'', ''microsoft''] 30
     = Inr [scored chunk_a1 (7/10), scored chunk_m1 (1/2), scored chunk_a2 (7/10), scored chunk_m2 (1/2)]"
    by (rule balance_two_by_two(1)) (simp_all add: scored_fields fields)
  show ?thesis
    unfolding hybrid_search_def Let_def t
    by (simp add: step_search step_score n b del: map_err.simps list.inject char.inject)
qed

lemma reranked_fields:
  "ch_id (reranked x kw rs) = ch_id x"
  "rerank_key (reranked x kw rs) = rs"
  by (simp_all add: reranked_def scored_def rerank_key_def)

lemma step_rerank:
  "rerank financial_phrases
     [scored chunk_a1 (7/10), scored chunk_m1 (1/2), scored chunk_a2 (7/10), scored chunk_m2 (1/2)] ''apple revenue''
   = Inr [reranked chunk_a1 (7/10) (7/25), reranked chunk_a2 (7/10) (7/25),
          reranked chunk_m1 (1/2) (1/5), reranked chunk_m2 (1/2) (1/5)]"
proof -
  have m: "map_err (rerank_chunk financial_phrases ''apple revenue'')
             [scored chunk_a1 (7/10), scored chunk_m1 (1/2), scored chunk_a2 (7/10), scored chunk_m2 (1/2)]
     = Inr [reranked chunk_a1 (7/10) (7/25), reranked chunk_m1 (1/2) (1/5),
            reranked chunk_a2 (7/10) (7/25), reranked chunk_m2 (1/2) (1/5)]"
    by (simp add: rerank_chunk_def scored_fields fields kw_values normalize_semantic_def
          reranked_def Let_def)
  have s: "sort_desc rerank_key [reranked chunk_a1 (7/10) (7/25), reranked chunk_m1 (1/2) (1/5),
            reranked chunk_a2 (7/10) (7/25), reranked chunk_m2 (1/2) (1/5)]
     = [reranked chunk_a1 (7/10) (7/25), reranked chunk_a2 (7/10) (7/25),
        reranked chunk_m1 (1/2) (1/5), reranked chunk_m2 (1/2) (1/5)]"
    by (simp add: sort_desc_def reranked_fields)
  show ?thesis
    by (simp add: rerank_def rerank_with_keywords_def m s del: map_err.simps)
qed

lemma step_process:
  "process_query (Inr comparison_extraction) ''Compare Apple and Microsoft revenue'' None None True
     = Inr \<lparr> pq_query_text = ''apple revenue'', pq_company = Some ''apple'',
             pq_companies = Some [''apple'', ''microsoft''], pq_year = None,
             pq_year_range = None \<rparr>"
  by (simp add: process_query_def comparison_extraction_def expand_years_def Let_def)

text \<open>
  C5. The claim says that the final list of \<open>retrieve\<close> keeps the round-robin order of
  the balancing and is never sorted by score again. At the comparison query above the
  balanced list that \<open>hybrid_search\<close> returns is a1, m1, a2, m2, but \<open>retrieve\<close> then sorts
  it by rerank score and, for \<open>top_k = 2\<close>, returns a1, a2: both chunks of one company
  and none of the other.
\<close>

theorem C5_retrieve_resorts_balanced_order:
  "map_sum id (map ch_id)
     (fst (hybrid_search financial_phrases tied_index ''apple revenue'' (Some ''u1'') 30 0.7 None
            (Some [''apple'', ''microsoft'']) []))
     = Inr [''a1'', ''m1'', ''a2'', ''m2'']
   \<and> map_sum id (map ch_id)
     (fst (retrieve financial_phrases default_settings tied_index (Inr comparison_extraction)
            ''Compare Apple and Microsoft revenue'' (Some ''u1'') (Some 2) None
            (Some [''apple'', ''microsoft'']) None True True []))
     = Inr [''a1'', ''a2'']"
proof -
  have h: "hybrid_search financial_phrases tied_index ''apple revenue'' (Some ''u1'') 30 (7/10) None
     (Some [''apple'', ''microsoft'']) []
   = (Inr [scored chunk_a1 (7/10), scored chunk_m1 (1/2), scored chunk_a2 (7/10), scored chunk_m2 (1/2)], [(''u1'', 270)])"
    using step_hybrid by simp
  have r: "retrieve financial_phrases default_settings tied_index (Inr comparison_extraction)
            ''Compare Apple and Microsoft revenue'' (Some ''u1'') (Some 2) None
            (Some [''apple'', ''microsoft'']) None True True []
      = (Inr [reranked chunk_a1 (7/10) (7/25), reranked chunk_a2 (7/10) (7/25)], [(''u1'', 270)])"
    unfolding retrieve_def Let_def
    by (simp add: step_process default_settings_def h step_rerank
          del: list.inject char.inject)
  show ?thesis
    by (simp add: h r scored_fields reranked_fields fields)
qed

subsection \<open>Retrieval Engine: the user id is mandatory\<close>

text \<open>
  C6. With a missing (\<open>None\<close>) or empty \<open>user_id\<close>, and whatever the other arguments,
  the index and the extraction outcome are, \<open>retrieve\<close>, \<open>search\<close> and \<open>hybrid_search\<close> raise
  \<open>ValueError\<close> and leave the trace of index calls as it was: no search is executed and
  no empty result is returned instead.
\<close>

theorem C6_user_id_required:
  assumes "user_id = None \<or> user_id = Some []"
  shows "retrieve ps cfg client llm query user_id top_k company companies year use_hybrid
             expand_query trace = (Inl ValueError, trace)
         \<and> search client user_id k company companies trace = (Inl ValueError, trace)
         \<and> hybrid_search ps client query_text user_id k alpha company companies trace
             = (Inl ValueError, trace)"
  using assms by (auto simp: retrieve_def search_def hybrid_search_def)


theorem C6_user_id_required_witness:
  "((None :: string option) = None \<or> (None :: string option) = Some [])
   \<and> retrieve financial_phrases default_settings (\<lambda>u n. Inr example_candidates)
        (Inl ValueError) ''apple revenue'' None (Some 8) None (Some [''apple'', ''microsoft''])
        None True True [] = (Inl ValueError, [])
   \<and> search (\<lambda>u n. Inr example_candidates) None 10 None (Some [''apple'', ''microsoft'']) []
        = (Inl ValueError, [])
   \<and> hybrid_search financial_phrases (\<lambda>u n. Inr example_candidates) ''apple revenue'' None 10
        0.7 None (Some [''apple'', ''microsoft'']) [] = (Inl ValueError, [])"
  using C6_user_id_required [of None financial_phrases default_settings
      "\<lambda>u n. Inr example_candidates" "Inl ValueError" "''apple revenue''" "Some 8" None
      "Some [''apple'', ''microsoft'']" None True True "[]" 10 "''apple revenue''" "0.7"]
  by simp

subsection \<open>Pooling: deduplication by content hash\<close>

lemma deduplicate_from_keys:
  assumes "\<forall>c \<in> set chunks. ch_content c \<noteq> None"
  shows "\<exists>out. deduplicate_from h seen chunks = Inr out
           \<and> distinct (map (content_key h) out)
           \<and> set (map (content_key h) out) = set (map (content_key h) chunks) - seen
           \<and> set out \<subseteq> set chunks"
  using assms
proof (induction chunks arbitrary: seen)
  case Nil
  then show ?case by simp
next
  case (Cons c cs)
  from Cons.prems obtain content where c: "ch_content c = Some content" by auto
  have cs: "\<forall>c \<in> set cs. ch_content c \<noteq> None" using Cons.prems by simp
  let ?k = "h (take CONTENT_HASH_LENGTH content)"
  have k: "content_key h c = ?k" by (simp add: content_key_def c)
  show ?case
  proof (cases "?k \<in> seen")
    case True
    from Cons.IH [OF cs, of seen] obtain out where
      o: "deduplicate_from h seen cs = Inr out" "distinct (map (content_key h) out)"
         "set (map (content_key h) out) = set (map (content_key h) cs) - seen"
         "set out \<subseteq> set cs" by blast
    then show ?thesis using True c k by (auto simp: Let_def)
  next
    case False
    from Cons.IH [OF cs, of "insert ?k seen"] obtain out where
      o: "deduplicate_from h (insert ?k seen) cs = Inr out" "distinct (map (content_key h) out)"
         "set (map (content_key h) out) = set (map (content_key h) cs) - insert ?k seen"
         "set out \<subseteq> set cs" by blast
    have "?k \<notin> set (map (content_key h) out)" using o(3) by simp
    then show ?thesis using False c k o by (auto simp: Let_def)
  qed
qed

lemma distinct_map_insert_desc:
  "distinct (map f (insert_desc key x ys)) = distinct (map f (x # ys))"
  by (induction ys) (auto simp: set_insert_desc)

lemma distinct_map_sort_desc: "distinct (map f (sort_desc key xs)) = distinct (map f xs)"
proof (induction xs)
  case Nil
  then show ?case by (simp add: sort_desc_def)
next
  case (Cons x xs)
  have "sort_desc key (x # xs) = insert_desc key x (sort_desc key xs)"
    by (simp add: sort_desc_def)
  then show ?case using Cons by (simp add: distinct_map_insert_desc set_sort_desc)
qed

lemma filter_key_one:
  "distinct (map f xs) \<Longrightarrow> v \<in> set (map f xs) \<Longrightarrow> length (filter (\<lambda>p. f p = v) xs) = 1"
proof (induction xs)
  case Nil
  then show ?case by simp
next
  case (Cons x xs)
  show ?case
  proof (cases "f x = v")
    case True
    then have "v \<notin> f ` set xs" using Cons.prems(1) by auto
    then have "filter (\<lambda>p. f p = v) xs = []" by (auto simp: filter_empty_conv)
    then show ?thesis using True by simp
  next
    case False
    then show ?thesis using Cons by auto
  qed
qed

text \<open>
  C9. When every pooled chunk has a content, pooling returns a list in which no two
  chunks have the same hash of the first 200 content characters, every hash of the input
  is still represented, and two input chunks with identical first 200 characters are
  represented by exactly one chunk of the result. \<open>h\<close> is Python's string hash.
\<close>

theorem C9_dedup:
  assumes "\<forall>c \<in> set chunks. ch_content c \<noteq> None"
  shows "\<exists>pooled. pool_chunks h chunks = Inr pooled
           \<and> distinct (map (content_key h) pooled)
           \<and> set (map (content_key h) pooled) = set (map (content_key h) chunks)
           \<and> (\<forall>c1 \<in> set chunks. \<forall>c2 \<in> set chunks.
                 take CONTENT_HASH_LENGTH (the (ch_content c1))
                   = take CONTENT_HASH_LENGTH (the (ch_content c2)) \<longrightarrow>
                 length (filter (\<lambda>p. content_key h p = content_key h c1
                                    \<or> content_key h p = content_key h c2) pooled) = 1)"
proof -
  from deduplicate_from_keys [OF assms, of h "{}"] obtain out where
    o: "deduplicate_chunks h chunks = Inr out" "distinct (map (content_key h) out)"
       "set (map (content_key h) out) = set (map (content_key h) chunks)"
    by (auto simp: deduplicate_chunks_def)
  let ?p = "sort_desc ch_score out"
  have p: "pool_chunks h chunks = Inr ?p" by (simp add: pool_chunks_def o(1))
  have d: "distinct (map (content_key h) ?p)" using o(2) by (simp add: distinct_map_sort_desc)
  have s: "set (map (content_key h) ?p) = set (map (content_key h) chunks)"
    using o(3) by (simp add: set_sort_desc)
  have "length (filter (\<lambda>p. content_key h p = content_key h c1
                           \<or> content_key h p = content_key h c2) ?p) = 1"
    if "c1 \<in> set chunks" "c2 \<in> set chunks"
       "take CONTENT_HASH_LENGTH (the (ch_content c1)) = take CONTENT_HASH_LENGTH (the (ch_content c2))"
    for c1 c2
  proof -
    have e: "content_key h c1 = content_key h c2" using that(3) by (simp add: content_key_def)
    have "content_key h c1 \<in> set (map (content_key h) ?p)" using that(1) s by simp
    from filter_key_one [OF d this] e show ?thesis by simp
  qed
  then show ?thesis using p d s by blast
qed

theorem C9_dedup_witness:
  "\<exists>pooled. pool_chunks (\<lambda>s. int (length s))
          [new_chunk ''a1'' (Some ''total revenue 2022'') 0.4 (Some ''apple''),
           new_chunk ''a2'' (Some ''net income 2022'') 0.9 (Some ''apple''),
           new_chunk ''a3'' (Some ''total revenue 2022'') 0.7 (Some ''apple'')] = Inr pooled
        \<and> distinct (map (content_key (\<lambda>s. int (length s))) pooled)"
proof -
  have h: "\<forall>c \<in> set [new_chunk ''a1'' (Some ''total revenue 2022'') 0.4 (Some ''apple''),
                 new_chunk ''a2'' (Some ''net income 2022'') 0.9 (Some ''apple''),
                 new_chunk ''a3'' (Some ''total revenue 2022'') 0.7 (Some ''apple'')].
       ch_content c \<noteq> None"
    by (simp add: new_chunk_def)
  from C9_dedup [OF h, of "\<lambda>s. int (length s)"] show ?thesis by blast
qed

subsection \<open>Retrieval stage: the no-progress short-circuit\<close>

lemma retrieval_node_keeps:
  "st_retrieval_attempts (retrieval_node r st) = st_retrieval_attempts st"
  "st_is_decomposed (retrieval_node r st) = st_is_decomposed st"
  "st_sub_queries (retrieval_node r st) = st_sub_queries st"
  by (simp_all add: retrieval_node_def split: sum.splits)

lemma refinement_node_keeps:
  "st_retrieval_attempts (refinement_node rp rf st) = st_retrieval_attempts st"
  "st_is_decomposed (refinement_node rp rf st) = st_is_decomposed st"
  by (simp_all add: refinement_node_def split: sum.splits)

lemma validation_node_attempts:
  "vu_retrieval_attempts (validation_node v entry st) = st_retrieval_attempts st + 1"
  by (simp add: validation_node_def validation_error_fallback_def Let_def
        split: sum.splits option.splits prod.splits)

lemma validation_node_forced:
  "2 \<le> st_retrieval_attempts st \<Longrightarrow> vu_retrieval_sufficient (validation_node v entry st)"
  by (simp add: validation_node_def validation_error_fallback_def Let_def
        split: sum.splits option.splits prod.splits)

lemma validation_step_attempts:
  "st_retrieval_attempts (validation_step v st) = st_retrieval_attempts st + 1"
  by (simp add: validation_step_def merge_validation_def validation_node_attempts)

lemma validation_step_forced:
  "2 \<le> st_retrieval_attempts st \<Longrightarrow> st_retrieval_sufficient (validation_step v st)"
  by (simp add: validation_step_def merge_validation_def validation_node_forced)

text \<open>
  What the comparison of lines 667-673 does when the handed dictionary has a non-empty
  \<open>previous_gaps\<close> entry with the same set of gaps: the node itself forces sufficiency.
\<close>

lemma validation_node_no_progress:
  assumes "\<not> (st_is_decomposed st \<and> truthy_list (st_sub_queries st))"
    and "previous \<noteq> []" and "set gaps = set previous"
  shows "vu_retrieval_sufficient (validation_node (Inr (sufficient, gaps)) (Some previous) st)"
  using assms by (cases "st_is_decomposed st") (simp_all add: validation_node_def Let_def)

text \<open>
  In the graph the entry is never there, so below the third attempt the verdict of a
  single-query validation is the model's own, whatever the gaps are.
\<close>

lemma validation_step_single:
  assumes "\<not> (st_is_decomposed st \<and> truthy_list (st_sub_queries st))"
  shows "st_retrieval_sufficient (validation_step (Inr (sufficient, gaps)) st)
           = (3 \<le> st_retrieval_attempts st + 1 \<or> sufficient)"
    and "st_gaps (validation_step (Inr (sufficient, gaps)) st) = gaps"
  using assms
  by (cases "st_is_decomposed st";
      simp add: validation_step_def merge_validation_def validation_node_def Let_def)+

lemma dec1:
  "st_gaps decomposed_attempt1 = [gap_message revenue_sub_query 1]"
  "st_retrieval_attempts decomposed_attempt1 = 1"
  "st_is_decomposed decomposed_attempt1" "st_sub_queries decomposed_attempt1 = Some [revenue_sub_query]"
  "\<not> st_retrieval_sufficient decomposed_attempt1"
  "st_user_id decomposed_attempt1 = Some ''u1''"
  by (simp_all add: decomposed_attempt1_def decomposed_start_def retrieval_node_def
        validation_step_def merge_validation_def validation_node_def dict_get_def
        revenue_sub_query_def revenue_chunk_def Let_def)

lemma refine_sub_query_ok:
  "\<exists>sq'. refine_sub_query (\<lambda>sq. Inr q) gaps sq = Inr sq'
         \<and> sq_intent sq' = sq_intent sq \<and> sq_sub_query sq' = sq_sub_query sq"
  by (simp add: refine_sub_query_def)

lemma gap_message_cong:
  "sq_intent sq' = sq_intent sq \<Longrightarrow> sq_sub_query sq' = sq_sub_query sq \<Longrightarrow>
   gap_message sq' n = gap_message sq n"
  by (simp add: gap_message_def)

lemma dec2:
  "st_gaps decomposed_attempt2 = [gap_message revenue_sub_query 1]"
  "st_retrieval_attempts decomposed_attempt2 = 2"
  "\<not> st_retrieval_sufficient decomposed_attempt2"
proof -
  obtain sq' where r: "refine_sub_query (\<lambda>sq. Inr ''nvidia total revenue fiscal 2017'')
        [gap_message revenue_sub_query (Suc 0)] revenue_sub_query = Inr sq'"
    and i: "sq_intent sq' = sq_intent revenue_sub_query"
    and q: "sq_sub_query sq' = sq_sub_query revenue_sub_query"
    using refine_sub_query_ok by blast
  have i': "sq_intent sq' = ''revenue_lookup''" using i by (simp add: revenue_sub_query_def)
  have ref: "refinement_node (\<lambda>sq. Inr ''nvidia total revenue fiscal 2017'') (Inl ValueError)
               decomposed_attempt1
             = decomposed_attempt1\<lparr> st_sub_queries := Some [sq'], st_retrieval_sufficient := False \<rparr>"
    by (simp add: refinement_node_def dec1 r)
  have g: "gap_message sq' (Suc 0) = gap_message revenue_sub_query (Suc 0)"
    using gap_message_cong [OF i q] .
  show "st_gaps decomposed_attempt2 = [gap_message revenue_sub_query 1]"
    "st_retrieval_attempts decomposed_attempt2 = 2"
    "\<not> st_retrieval_sufficient decomposed_attempt2"
    unfolding decomposed_attempt2_def ref
    by (simp_all add: retrieval_node_def validation_step_def merge_validation_def
          validation_node_def dict_get_def dec1 i' g revenue_chunk_def Let_def)
qed

lemma single1:
  "st_gaps single_attempt1 = [''2017 revenue missing'', ''net income missing'']"
  "st_retrieval_attempts single_attempt1 = 1"
  "\<not> st_is_decomposed single_attempt1"
  "\<not> st_retrieval_sufficient single_attempt1"
  "st_user_id single_attempt1 = Some ''u1''"
  "st_processed_query single_attempt1 = Some ''nvidia revenue 2017''"
  by (simp_all add: single_attempt1_def single_start_def retrieval_node_def
        validation_step_def merge_validation_def validation_node_def Let_def)

lemma single2:
  "st_gaps single_attempt2 = [''net income missing'', ''2017 revenue missing'']"
  "st_retrieval_attempts single_attempt2 = 2"
  "\<not> st_retrieval_sufficient single_attempt2"
  by (simp_all add: single_attempt2_def refinement_node_def retrieval_node_def
        validation_step_def merge_validation_def validation_node_def single1 Let_def)

text \<open>
  C3. The claim says that a validation whose gap set equals that of the attempt before
  forces \<open>retrieval_sufficient = true\<close>, so that the loop exits on the second of the two
  attempts, decomposed or not. In the single-query run above the second validation
  returns the same two gaps as the first, and in the decomposed run the same gap message;
  in both the state after the second validation has \<open>retrieval_attempts = 2\<close>, is not
  sufficient, and the conditional edge goes to refinement, that is to a third attempt.
\<close>

theorem C3_no_progress_exit_not_taken:
  "st_retrieval_attempts single_attempt1 = 1
   \<and> st_retrieval_attempts single_attempt2 = 2
   \<and> st_gaps single_attempt1 \<noteq> []
   \<and> set (st_gaps single_attempt2) = set (st_gaps single_attempt1)
   \<and> \<not> st_retrieval_sufficient single_attempt2
   \<and> should_continue_retrieval single_attempt2 = Refine
   \<and> st_retrieval_attempts decomposed_attempt1 = 1
   \<and> st_retrieval_attempts decomposed_attempt2 = 2
   \<and> st_gaps decomposed_attempt1 \<noteq> []
   \<and> set (st_gaps decomposed_attempt2) = set (st_gaps decomposed_attempt1)
   \<and> \<not> st_retrieval_sufficient decomposed_attempt2
   \<and> should_continue_retrieval decomposed_attempt2 = Refine"
  by (simp add: dec1 dec2 single1 single2 should_continue_retrieval_def insert_commute)

subsection \<open>Generation stage: the quality check\<close>

lemma check_chart_empty_iff: "check_chart i c = [] \<longleftrightarrow> chart_well_formed c"
proof (cases c)
  case (JObj chart)
  show ?thesis
    unfolding JObj
    by (auto split: option.splits json.splits)
qed simp_all

lemma concat_check_enumerate:
  "concat (map (\<lambda>(i, chart). check_chart i chart) (enumerate n charts)) = []
     \<longleftrightarrow> list_all chart_well_formed charts"
  by (induction charts arbitrary: n) (simp_all add: check_chart_empty_iff)

lemma check_charts_empty_iff: "check_charts charts = [] \<longleftrightarrow> list_all chart_well_formed charts"
  unfolding check_charts_def by (rule concat_check_enumerate)

text \<open>
  C7. For a state that holds a response, \<open>quality_check_node\<close> sets \<open>response_valid\<close> to
  true exactly when every chart has the required shape (\<open>chart_well_formed\<close>); changing
  the text of the response changes neither the verdict nor the errors; and the single
  chart \<open>{"type": "scatter", "data": {}}\<close> is invalid, with the invalid-type error and the
  missing labels/datasets error for chart 1.
\<close>

theorem C7_quality_check:
  "gs_response_valid (quality_check_node (st\<lparr> gs_response := Some response \<rparr>))
     = list_all chart_well_formed (ar_charts response)
   \<and> gs_response_valid (quality_check_node (st\<lparr> gs_response := Some (response\<lparr> ar_text := t \<rparr>) \<rparr>))
     = gs_response_valid (quality_check_node (st\<lparr> gs_response := Some response \<rparr>))
   \<and> gs_validation_errors (quality_check_node (st\<lparr> gs_response := Some (response\<lparr> ar_text := t \<rparr>) \<rparr>))
     = gs_validation_errors (quality_check_node (st\<lparr> gs_response := Some response \<rparr>))
   \<and> \<not> gs_response_valid (quality_check_node
         (st\<lparr> gs_response := Some (response\<lparr> ar_charts :=
               [JObj [(''type'', JStr ''scatter''), (''data'', JObj [])]] \<rparr>) \<rparr>))
   \<and> gs_validation_errors (quality_check_node
         (st\<lparr> gs_response := Some (response\<lparr> ar_charts :=
               [JObj [(''type'', JStr ''scatter''), (''data'', JObj [])]] \<rparr>) \<rparr>))
     = [InvalidType 1 (JStr ''scatter''), MissingLabelsOrDatasets 1]"
  by (simp add: quality_check_node_def check_charts_empty_iff Let_def)
     (simp add: check_charts_def enumerate_eq_zip)

theorem C7_quality_check_witness:
  "gs_response_valid (quality_check_node
      \<lparr> gs_current_query = ''Apple revenue trend'',
        gs_response = Some \<lparr> ar_text = ''Revenue grew. [CHART:1]'',
          ar_charts = [JObj [(''type'', JStr ''line''),
                            (''data'', JObj [(''labels'', JArr [JStr ''2021'', JStr ''2022'']),
                                             (''datasets'', JArr [])])]] \<rparr>,
        gs_response_valid = False, gs_validation_errors = [], gs_self_heal_attempts = 0 \<rparr>)"
  using C7_quality_check [where st =
      "\<lparr> gs_current_query = ''Apple revenue trend'', gs_response = None,
         gs_response_valid = False, gs_validation_errors = [], gs_self_heal_attempts = 0 \<rparr>"
      and response = "\<lparr> ar_text = ''Revenue grew. [CHART:1]'',
         ar_charts = [JObj [(''type'', JStr ''line''),
                           (''data'', JObj [(''labels'', JArr [JStr ''2021'', JStr ''2022'']),
                                            (''datasets'', JArr [])])]] \<rparr>" and t = "[]"]
  by simp

subsection \<open>Termination of the retrieval cycle and of the self-heal cycle\<close>

text \<open>
  The retrieval loop: every validation adds one to \<open>retrieval_attempts\<close> and the third
  one forces sufficiency, so the stage ends within the fuel that is left, sufficient.
\<close>

lemma retrieval_step_attempts:
  "st_retrieval_attempts (validation_step v (retrieval_node r st)) = st_retrieval_attempts st + 1"
  by (simp add: validation_step_attempts retrieval_node_keeps)

lemma retrieval_step_forced:
  "2 \<le> st_retrieval_attempts st \<Longrightarrow>
   st_retrieval_sufficient (validation_step v (retrieval_node r st))"
  by (rule validation_step_forced) (simp add: retrieval_node_keeps)

lemma retrieval_loop_ends:
  "st_retrieval_attempts st + fuel = 3 \<Longrightarrow> 0 < fuel \<Longrightarrow>
   \<exists>st'. retrieval_loop fuel env i st = Some st' \<and> st_retrieval_sufficient st'
         \<and> st_retrieval_attempts st' \<le> 3"
proof (induction fuel arbitrary: st i)
  case 0
  then show ?case by simp
next
  case (Suc n)
  let ?v = "validation_step (env_validation env i) (retrieval_node (env_retriever env i) st)"
  have a: "st_retrieval_attempts ?v = st_retrieval_attempts st + 1"
    by (rule retrieval_step_attempts)
  show ?case
  proof (cases "should_continue_retrieval ?v")
    case End
    have "st_retrieval_sufficient ?v"
    proof (cases "2 \<le> st_retrieval_attempts st")
      case True
      then show ?thesis by (rule retrieval_step_forced)
    next
      case False
      then show ?thesis
        using End a by (simp add: should_continue_retrieval_def split: if_splits)
    qed
    then show ?thesis using End a Suc.prems by (simp add: Let_def)
  next
    case Refine
    then have lt: "st_retrieval_attempts ?v < 3"
      by (simp add: should_continue_retrieval_def split: if_splits)
    let ?r = "refinement_node (env_reprocess env i) (env_refined env i) ?v"
    have ra: "st_retrieval_attempts ?r = st_retrieval_attempts st + 1"
      by (simp add: refinement_node_keeps a)
    have "st_retrieval_attempts ?r + n = 3" "0 < n"
      using Suc.prems lt a ra by simp_all
    from Suc.IH [OF this, of "Suc i"] show ?thesis
      using Refine by (simp add: Let_def)
  qed
qed

text \<open>From the initial state of a run, three validations are enough.\<close>

lemma retrieval_loop_bounded:
  "st_retrieval_attempts st = 0 \<Longrightarrow>
   \<exists>st'. retrieval_loop 3 env i st = Some st' \<and> st_retrieval_sufficient st'
         \<and> st_retrieval_attempts st' \<le> 3"
  using retrieval_loop_ends [of st 3 env i] by simp

text \<open>
  The self-heal loop: the quality check recomputes \<open>response_valid\<close> from the charts each
  time, and only the normal path of \<open>self_heal_node\<close> adds one to \<open>self_heal_attempts\<close>.
\<close>

lemma quality_check_invalid:
  assumes "gs_response st = Some r" "\<not> list_all chart_well_formed (ar_charts r)"
  shows "gs_response (quality_check_node (synthesis_node st)) = Some r"
    and "\<not> gs_response_valid (quality_check_node (synthesis_node st))"
    and "gs_validation_errors (quality_check_node (synthesis_node st)) \<noteq> []"
    and "gs_self_heal_attempts (quality_check_node (synthesis_node st)) = gs_self_heal_attempts st"
  using assms
  by (simp_all add: quality_check_node_def synthesis_node_def check_charts_empty_iff Let_def)

lemma healing_loop_raises:
  "gs_response st = Some r \<Longrightarrow> \<not> list_all chart_well_formed (ar_charts r) \<Longrightarrow>
   gs_self_heal_attempts st < 2 \<Longrightarrow>
   healing_loop fuel (\<lambda>i. HealRaises) i st = None"
proof (induction fuel arbitrary: st i)
  case 0
  then show ?case by simp
next
  case (Suc n)
  let ?q = "quality_check_node (synthesis_node st)"
  note q = quality_check_invalid [OF Suc.prems(1) Suc.prems(2)]
  have e: "should_continue_healing ?q = Heal"
    using q Suc.prems(3) by (simp add: should_continue_healing_def)
  have h: "self_heal_node HealRaises ?q = ?q\<lparr> gs_response_valid := True \<rparr>"
    using q Suc.prems(3) by (simp add: self_heal_node_def Let_def)
  have "healing_loop n (\<lambda>i. HealRaises) (Suc i) (?q\<lparr> gs_response_valid := True \<rparr>) = None"
    by (rule Suc.IH) (use q Suc.prems in simp_all)
  then show ?case using e h by (simp add: Let_def)
qed

lemma scatter_invalid: "\<not> chart_well_formed scatter_chart"
  by (simp add: scatter_chart_def)

lemma scatter_checks: "check_charts [scatter_chart] = [InvalidType 1 (JStr ''scatter''), MissingLabelsOrDatasets 1]"
  by (simp add: check_charts_def scatter_chart_def)

lemma healing_round_scatter:
  assumes "gs_response st = Some r" "ar_charts r = [scatter_chart]" "gs_self_heal_attempts st < 2"
  shows "healing_loop (Suc fuel) (\<lambda>i. HealJson (JArr [scatter_chart])) i st
         = healing_loop fuel (\<lambda>i. HealJson (JArr [scatter_chart])) (Suc i)
             (st\<lparr> gs_response := Some r,
                  gs_validation_errors := [InvalidType 1 (JStr ''scatter''), MissingLabelsOrDatasets 1],
                  gs_self_heal_attempts := gs_self_heal_attempts st + 1,
                  gs_response_valid := False \<rparr>)"
proof -
  have r: "r\<lparr> ar_charts := [scatter_chart] \<rparr> = r" using assms(2) by simp
  show ?thesis
    using assms
    by (cases st)
       (simp add: quality_check_node_def synthesis_node_def scatter_checks
          should_continue_healing_def self_heal_node_def r Let_def)
qed

lemma healing_last_scatter:
  assumes "gs_response st = Some r" "ar_charts r = [scatter_chart]" "gs_self_heal_attempts st = 2"
  shows "healing_loop (Suc fuel) replies i st
         = Some (st\<lparr> gs_response := Some r, gs_response_valid := False,
                  gs_validation_errors := [InvalidType 1 (JStr ''scatter''), MissingLabelsOrDatasets 1],
                  gs_self_heal_attempts := 2 \<rparr>)"
  using assms
  by (cases st)
     (simp add: quality_check_node_def synthesis_node_def scatter_checks
        should_continue_healing_def Let_def)

text \<open>
  C2. The claim says that the self-heal loop ends within 2 attempts for every input and
  forces \<open>response_valid = true\<close> at the bound. For the scatter chart: when the repair
  call raises every time, \<open>self_heal_node\<close> returns its forced acceptance without
  counting the attempt, the next quality check finds the same invalid chart, and the loop
  does not end within any number of rounds; when the repair call returns the same
  invalid chart every time, the loop ends after the second repair with
  \<open>self_heal_attempts = 2\<close> and \<open>response_valid = false\<close>.
\<close>

theorem C2_self_heal_loop_not_forced:
  "(\<forall>fuel. healing_loop fuel (\<lambda>i. HealRaises) 0 scatter_state = None)
   \<and> map_option gs_response_valid
        (healing_loop 3 (\<lambda>i. HealJson (JArr [scatter_chart])) 0 scatter_state) = Some False
   \<and> map_option gs_self_heal_attempts
        (healing_loop 3 (\<lambda>i. HealJson (JArr [scatter_chart])) 0 scatter_state) = Some 2"
proof -
  have a: "healing_loop fuel (\<lambda>i. HealRaises) 0 scatter_state = None" for fuel
    by (rule healing_loop_raises [of _ "\<lparr> ar_text = ''Revenue and net income moved together. [CHART:1]'',
                            ar_charts = [scatter_chart] \<rparr>"])
       (simp_all add: scatter_state_def scatter_invalid)
  have b: "healing_loop (Suc (Suc (Suc 0))) (\<lambda>i. HealJson (JArr [scatter_chart])) 0 scatter_state
      = Some (scatter_state\<lparr> gs_response_valid := False,
            gs_validation_errors := [InvalidType 1 (JStr ''scatter''), MissingLabelsOrDatasets 1],
            gs_self_heal_attempts := 2 \<rparr>)"
    apply (subst healing_round_scatter [where r = "\<lparr> ar_text = ''Revenue and net income moved together. [CHART:1]'',
                            ar_charts = [scatter_chart] \<rparr>"])
       apply (simp_all add: scatter_state_def)[3]
    apply (subst healing_round_scatter [where r = "\<lparr> ar_text = ''Revenue and net income moved together. [CHART:1]'',
                            ar_charts = [scatter_chart] \<rparr>"])
       apply (simp_all add: scatter_state_def)[3]
    apply (subst healing_last_scatter [where r = "\<lparr> ar_text = ''Revenue and net income moved together. [CHART:1]'',
                            ar_charts = [scatter_chart] \<rparr>"])
       apply (simp_all add: scatter_state_def)
    done
  have n: "(3::nat) = Suc (Suc (Suc 0))" by simp
  show ?thesis using a unfolding n b by simp
qed

subsection \<open>Keyword Scorer: bounds of the relevance score\<close>

lemma term_boost_pos: "0 < term_boost t"
  by (simp add: term_boost_def Let_def)

lemma bm25_term_nonneg:
  assumes "0 < avg" "0 < k1" "0 \<le> b" "b < 1"
  shows "0 \<le> bm25_term d avg k1 b t"
proof -
  have "0 \<le> b * (real (length d) / avg)" using assms by simp
  moreover have "0 < 1 - b" using assms by simp
  ultimately have "0 < 1 - b + b * (real (length d) / avg)" by linarith
  then have "0 < k1 * (1 - b + b * (real (length d) / avg))" using assms by simp
  then have den: "0 < real (count_list d t) + k1 * (1 - b + b * (real (length d) / avg))"
    by (simp add: add_nonneg_pos)
  have "0 \<le> ln (10::real)" by simp
  moreover have "0 \<le> term_boost t" using term_boost_pos [of t] by simp
  moreover have "0 \<le> k1 + 1" using assms by simp
  ultimately have num: "0 \<le> ln 10 * real (count_list d t) * (k1 + 1) * term_boost t"
    by simp
  from num den show ?thesis
    unfolding bm25_term_def Let_def by (rule divide_nonneg_pos)
qed

lemma calculate_bm25_score_nonneg: "0 \<le> calculate_bm25_score q d"
proof -
  have "0 \<le> sum_list (map (bm25_term d 100 1.5 0.75) xs)" for xs
    by (induction xs) (simp_all add: bm25_term_nonneg)
  then show ?thesis by (simp add: calculate_bm25_score_def)
qed

lemma phrase_bonus_of_nonneg: "0 \<le> phrase_bonus_of c p"
  by (simp add: phrase_bonus_of_def)

lemma phrase_bonus_sum_nonneg: "0 \<le> sum_list (map (phrase_bonus_of c) xs)"
  by (induction xs) (simp_all add: phrase_bonus_of_nonneg)

lemma sigmoid_bounds:
  assumes "0 \<le> (x::real)"
  shows "1 / 2 \<le> 1 / (1 + exp (- x / 10))" and "1 / (1 + exp (- x / 10)) < 1"
proof -
  define e where "e = exp (- x / 10)"
  have e0: "0 < e" by (simp add: e_def)
  have e1: "e \<le> 1" using assms by (simp add: e_def)
  from e0 e1 have "1 / 2 \<le> 1 / (1 + e)" by (simp add: field_simps)
  then show "1 / 2 \<le> 1 / (1 + exp (- x / 10))" by (simp add: e_def)
  from e0 have "1 / (1 + e) < 1" by (simp add: field_simps)
  then show "1 / (1 + exp (- x / 10)) < 1" by (simp add: e_def)
qed

lemma relevance_nonempty:
  assumes "tokenize ps query \<noteq> []"
  shows "1 / 2 \<le> calculate_keyword_relevance ps query content use_phrases"
    and "calculate_keyword_relevance ps query content use_phrases \<le> 1"
proof -
  let ?s = "calculate_bm25_score (tokenize ps query) (tokenize ps content)"
  let ?b = "if use_phrases
            then sum_list (map (phrase_bonus_of (lower content)) (extract_phrases ps query 2 3))
            else 0"
  have r: "calculate_keyword_relevance ps query content use_phrases =
             min 1 (1 / (1 + exp (- ?s / 10)) + ?b)"
    using assms by (simp add: calculate_keyword_relevance_def Let_def)
  have b: "0 \<le> ?b" using phrase_bonus_sum_nonneg by simp
  have s: "1 / 2 \<le> 1 / (1 + exp (- ?s / 10))"
    using sigmoid_bounds(1) [OF calculate_bm25_score_nonneg] .
  from b s have "1 / 2 \<le> 1 / (1 + exp (- ?s / 10)) + ?b" by linarith
  then show "1 / 2 \<le> calculate_keyword_relevance ps query content use_phrases"
    unfolding r by simp
  show "calculate_keyword_relevance ps query content use_phrases \<le> 1"
    unfolding r by simp
qed

lemma tokenize_empty: "tokenize ps [] = []"
proof -
  have "protect_phrases ps [] = []"
    unfolding protect_phrases_def
    by (induction ps) (simp_all add: replace_def)
  then show ?thesis
    by (simp add: tokenize_def lower_def strip_special_def split_def Let_def)
qed

text \<open>
  C4. For every query and every document the relevance score of
  \<open>calculate_keyword_relevance\<close> lies in the interval from 0 to 1 (in particular for every
  non-empty query), and for the empty query it is exactly 0. This holds for every
  iteration order \<open>ps\<close> of the phrase set and for both values of \<open>use_phrases\<close>.
\<close>

theorem C4_score_bounds:
  "0 \<le> calculate_keyword_relevance ps query content use_phrases
   \<and> calculate_keyword_relevance ps query content use_phrases \<le> 1
   \<and> calculate_keyword_relevance ps [] content use_phrases = 0"
proof (cases "tokenize ps query = []")
  case True
  then show ?thesis by (simp add: calculate_keyword_relevance_def tokenize_empty)
next
  case False
  from relevance_nonempty [OF False, of content use_phrases] show ?thesis
    by (simp add: calculate_keyword_relevance_def tokenize_empty)
qed

text \<open>
  C10. When the tokenization of the query yields at least one token, the BM25 sum is
  non-negative and the relevance score is at least one half for every document, also
  for a document that shares nothing with the query; so the score is not 0 then, and a
  score of 0 occurs only for a query that tokenizes to nothing.
\<close>

theorem C10_score_at_least_half:
  assumes "tokenize ps query \<noteq> []"
  shows "0 \<le> calculate_bm25_score (tokenize ps query) (tokenize ps content)
         \<and> 1 / 2 \<le> calculate_keyword_relevance ps query content use_phrases
         \<and> calculate_keyword_relevance ps query content use_phrases \<noteq> 0"
proof -
  have "1 / 2 \<le> calculate_keyword_relevance ps query content use_phrases"
    using relevance_nonempty(1) [OF assms] .
  then show ?thesis using calculate_bm25_score_nonneg by auto
qed

theorem C10_score_at_least_half_witness:
  "tokenize financial_phrases ''revenue'' \<noteq> []
   \<and> 1 / 2 \<le> calculate_keyword_relevance financial_phrases ''revenue'' ''rising costs'' True"
proof -
  have t: "tokenize financial_phrases ''revenue'' = [''revenue'']" by code_simp
  then have h: "tokenize financial_phrases ''revenue'' \<noteq> []" by simp
  from C10_score_at_least_half [OF h, of "''rising costs''" True] h show ?thesis by simp
qed

subsection \<open>Query Processor: smart year-range expansion\<close>



end
